theory Spec2Isabelle
  imports Complex_Main "HOL-Library.AList" "HOL-Library.Sublist"
begin

section \<open>Python and numpy floats\<close>

text \<open>
  Scores (R-squared, cross-validated means, ensemble weights) are Python/numpy floats. A float is a
  finite value, one of the two infinities, or NaN. Finite values are modelled as exact reals:
  rounding, overflow and the sign of zero are not modelled here (the ensemble composer is
  given a second time with its rounding made explicit). What the source does where HOL
  would silently return a default is written out: numpy division by zero yields an infinity
  or NaN (a warning, not an exception), every comparison with NaN is false, and only the
  finite value zero is falsy.
\<close>

datatype pyfloat = Fin real | PInf | NInf | NaN

fun fadd :: "pyfloat \<Rightarrow> pyfloat \<Rightarrow> pyfloat" where
  "fadd (Fin a) (Fin b) = Fin (a + b)"
| "fadd NaN _ = NaN"
| "fadd _ NaN = NaN"
| "fadd PInf NInf = NaN"
| "fadd NInf PInf = NaN"
| "fadd PInf _ = PInf"
| "fadd _ PInf = PInf"
| "fadd NInf _ = NInf"
| "fadd _ NInf = NInf"

fun fdiv :: "pyfloat \<Rightarrow> pyfloat \<Rightarrow> pyfloat" where
  "fdiv (Fin a) (Fin b) =
     (if b = 0 then (if a = 0 then NaN else if 0 < a then PInf else NInf)
      else Fin (a / b))"
| "fdiv NaN _ = NaN"
| "fdiv _ NaN = NaN"
| "fdiv (Fin a) PInf = Fin 0"
| "fdiv (Fin a) NInf = Fin 0"
| "fdiv PInf (Fin b) = (if 0 \<le> b then PInf else NInf)"
| "fdiv NInf (Fin b) = (if 0 \<le> b then NInf else PInf)"
| "fdiv PInf PInf = NaN"
| "fdiv PInf NInf = NaN"
| "fdiv NInf PInf = NaN"
| "fdiv NInf NInf = NaN"

text \<open>\<open>x < y\<close> on floats.\<close>

fun flt :: "pyfloat \<Rightarrow> pyfloat \<Rightarrow> bool" where
  "flt (Fin a) (Fin b) = (a < b)"
| "flt NaN _ = False"
| "flt _ NaN = False"
| "flt NInf NInf = False"
| "flt NInf _ = True"
| "flt _ NInf = False"
| "flt PInf _ = False"
| "flt _ PInf = True"

text \<open>Truthiness of a float (\<open>bool(x)\<close>): only zero is falsy; NaN is truthy.\<close>

fun truthy :: "pyfloat \<Rightarrow> bool" where
  "truthy (Fin a) = (a \<noteq> 0)"
| "truthy _ = True"

text \<open>The builtin \<open>sum(xs)\<close>: a left fold starting from \<open>0\<close>.\<close>

definition py_sum :: "pyfloat list \<Rightarrow> pyfloat" where
  "py_sum xs = foldl fadd (Fin 0) xs"

section \<open>The ensemble composer (enhanced\_ml\_pipeline.py)\<close>

text \<open>
  \<open>self.model_performance\<close> maps a candidate name to its metrics; \<open>self.ensemble_weights\<close>
  maps a name to its weight. Both are Python dicts, which keep insertion order: association
  lists, updated with \<open>AList.update\<close> (an existing key keeps its position, a new key is
  appended).
\<close>

record perf =
  mse :: pyfloat
  r2 :: pyfloat
  cv_mean :: pyfloat
  cv_std :: pyfloat

type_synonym model_performance = "(string \<times> perf) list"
type_synonym ensemble_weights = "(string \<times> pyfloat) list"

text \<open>
  \<^verbatim>\<open>total_cv_score = sum([perf['cv_mean'] for perf in self.model_performance.values()])\<close>
\<close>

definition total_cv_score :: "model_performance \<Rightarrow> pyfloat" where
  "total_cv_score mp = py_sum (map (\<lambda>(name, p). cv_mean p) mp)"

text \<open>
  \<^verbatim>\<open>
  for name, perf in self.model_performance.items():
      self.ensemble_weights[name] = perf['cv_mean'] / total_cv_score
  \<close>
  The second argument is the value of \<open>self.ensemble_weights\<close> before the call
  (\<open>{}\<close> after \<open>__init__\<close>); the result is its value afterwards.
\<close>

definition create_ensemble_model :: "model_performance \<Rightarrow> ensemble_weights \<Rightarrow> ensemble_weights" where
  "create_ensemble_model mp ew =
     (let total = total_cv_score mp
      in foldl (\<lambda>w (name, p). AList.update name (fdiv (cv_mean p) total) w) ew mp)"

text \<open>The finite cross-validated mean of a candidate, where it has one.\<close>

fun fin_val :: "pyfloat \<Rightarrow> real" where
  "fin_val (Fin a) = a"
| "fin_val _ = 0"

fun is_fin :: "pyfloat \<Rightarrow> bool" where
  "is_fin (Fin a) = True"
| "is_fin _ = False"

definition cv_real :: "perf \<Rightarrow> real" where
  "cv_real p = fin_val (cv_mean p)"

definition all_finite :: "model_performance \<Rightarrow> bool" where
  "all_finite mp = list_all (\<lambda>(name, p). is_fin (cv_mean p)) mp"

definition cv_total :: "model_performance \<Rightarrow> real" where
  "cv_total mp = sum_list (map (\<lambda>(name, p). cv_real p) mp)"

text \<open>A candidate result with the given cross-validated mean (other metrics arbitrary).\<close>

definition cand :: "real \<Rightarrow> perf" where
  "cand c = \<lparr>mse = Fin 0, r2 = Fin 0, cv_mean = Fin c, cv_std = Fin 0\<rparr>"

subsection \<open>The composer with rounding\<close>

text \<open>
  The functions above compute with exact reals. Here the same computation is written with
  the rounding of every arithmetic operation made explicit: a binary64 operation returns
  the exact result rounded, so each finite sum and quotient passes through \<open>rnd\<close>; the
  infinities and NaN are rounded to themselves. With \<open>rnd = (\<lambda>x. x)\<close> these are the
  functions above (\<open>exact_instance\<close>). Overflow is not modelled.
\<close>

definition round_fin :: "(real \<Rightarrow> real) \<Rightarrow> pyfloat \<Rightarrow> pyfloat" where
  "round_fin rnd x = (case x of Fin a \<Rightarrow> Fin (rnd a) | _ \<Rightarrow> x)"

definition fadd_r :: "(real \<Rightarrow> real) \<Rightarrow> pyfloat \<Rightarrow> pyfloat \<Rightarrow> pyfloat" where
  "fadd_r rnd x y = round_fin rnd (fadd x y)"

definition fdiv_r :: "(real \<Rightarrow> real) \<Rightarrow> pyfloat \<Rightarrow> pyfloat \<Rightarrow> pyfloat" where
  "fdiv_r rnd x y = round_fin rnd (fdiv x y)"

definition py_sum_r :: "(real \<Rightarrow> real) \<Rightarrow> pyfloat list \<Rightarrow> pyfloat" where
  "py_sum_r rnd xs = foldl (fadd_r rnd) (Fin 0) xs"

definition total_cv_score_r :: "(real \<Rightarrow> real) \<Rightarrow> model_performance \<Rightarrow> pyfloat" where
  "total_cv_score_r rnd mp = py_sum_r rnd (map (\<lambda>(name, p). cv_mean p) mp)"

definition create_ensemble_model_r ::
  "(real \<Rightarrow> real) \<Rightarrow> model_performance \<Rightarrow> ensemble_weights \<Rightarrow> ensemble_weights" where
  "create_ensemble_model_r rnd mp ew =
     (let total = total_cv_score_r rnd mp
      in foldl (\<lambda>w (name, p). AList.update name (fdiv_r rnd (cv_mean p) total) w) ew mp)"

text \<open>
  No candidate has a negative cross-validated mean; some candidate has a strictly positive
  one; the weights stored are all finite; the sum of the stored weights, taken exactly.
\<close>

definition nonneg_means :: "model_performance \<Rightarrow> bool" where
  "nonneg_means mp = list_all (\<lambda>(name, p). 0 \<le> cv_real p) mp"

definition some_positive_mean :: "model_performance \<Rightarrow> bool" where
  "some_positive_mean mp = list_ex (\<lambda>(name, p). 0 < cv_real p) mp"

definition weights_finite_values :: "ensemble_weights \<Rightarrow> bool" where
  "weights_finite_values ws = list_all (\<lambda>(name, x). is_fin x) ws"

definition weight_sum :: "ensemble_weights \<Rightarrow> real" where
  "weight_sum ws = sum_list (map (\<lambda>(name, x). fin_val x) ws)"

text \<open>
  The unit roundoff of binary64 (round to nearest), a rounding that overshoots every result
  by that relative error, and the four candidates of the specification's example.
\<close>

definition unit_roundoff :: real where
  "unit_roundoff = 1 / 2 ^ 53"

definition demo_rounding :: "real \<Rightarrow> real" where
  "demo_rounding x = x * (1 + unit_roundoff)"

definition demo_candidates :: model_performance where
  "demo_candidates =
     [(''random_forest'', cand (6/10)), (''gradient_boosting'', cand (5/10)),
      (''xgboost'', cand (7/10)), (''neural_network'', cand (4/10))]"

section \<open>The retraining pipeline (auto\_retrain.py): data\<close>

text \<open>
  Exceptions are values. Every call of the source that can raise returns \<open>error + 'a\<close>;
  a call that also changes the world returns the result paired with the world it leaves.
\<close>

datatype error =
    OSError | FileNotFoundError | UnpicklingError | ParserError | DatabaseError | ValueError

text \<open>
  A pandas DataFrame: its columns in order, each with a name, whether its dtype is numeric,
  and its cells. All columns have the same number of cells (the rows).
\<close>

datatype cell = Num pyfloat | Str string | Null

record column =
  col_name :: string
  numeric :: bool
  cells :: "cell list"

type_synonym dataframe = "column list"

text \<open>\<open>len(df)\<close>, \<open>df.empty\<close> (some axis has length 0) and \<open>name in df.columns\<close>.\<close>

fun df_len :: "dataframe \<Rightarrow> nat" where
  "df_len [] = 0"
| "df_len (c # cs) = length (cells c)"

definition df_empty :: "dataframe \<Rightarrow> bool" where
  "df_empty df = (df = [] \<or> df_len df = 0)"

definition has_column :: "string \<Rightarrow> dataframe \<Rightarrow> bool" where
  "has_column name df = (name \<in> set (map col_name df))"

text \<open>\<open>df[name]\<close> for a column that is present, and \<open>df[names]\<close> for a list of names.\<close>

definition get_column :: "string \<Rightarrow> dataframe \<Rightarrow> cell list" where
  "get_column name df =
     (case List.find (\<lambda>c. col_name c = name) df of Some c \<Rightarrow> cells c | None \<Rightarrow> [])"

definition select_columns :: "string list \<Rightarrow> dataframe \<Rightarrow> dataframe" where
  "select_columns names df = concat (map (\<lambda>n. filter (\<lambda>c. col_name c = n) df) names)"

text \<open>\<open>df.fillna(0)\<close>: missing cells (None and NaN) become 0.\<close>

fun fill_cell :: "cell \<Rightarrow> cell" where
  "fill_cell Null = Num (Fin 0)"
| "fill_cell (Num NaN) = Num (Fin 0)"
| "fill_cell c = c"

definition fillna0 :: "dataframe \<Rightarrow> dataframe" where
  "fillna0 df = map (\<lambda>c. c\<lparr>cells := map fill_cell (cells c)\<rparr>) df"

text \<open>
  \<open>df[name] = values\<close> for a new column, and \<open>df[name] = 0\<close> (a numeric column of zeros).
\<close>

definition add_column :: "string \<Rightarrow> bool \<Rightarrow> cell list \<Rightarrow> dataframe \<Rightarrow> dataframe" where
  "add_column name num vs df = df @ [\<lparr>col_name = name, numeric = num, cells = vs\<rparr>]"

definition add_zero_column :: "string \<Rightarrow> dataframe \<Rightarrow> dataframe" where
  "add_zero_column name df = add_column name True (replicate (df_len df) (Num (Fin 0))) df"

text \<open>\<open>df[dst] = df[src]\<close> for a column \<open>src\<close> that is present and a new name \<open>dst\<close>.\<close>

definition copy_column :: "string \<Rightarrow> string \<Rightarrow> dataframe \<Rightarrow> dataframe" where
  "copy_column src dst df =
     (case List.find (\<lambda>c. col_name c = src) df of
        Some c \<Rightarrow> add_column dst (numeric c) (cells c) df
      | None \<Rightarrow> df)"

text \<open>
  Points in time are microseconds on the local time line; \<open>(a - b).days\<close> is the floor of the
  difference in days. The formatted stamp of a moment is left to \<open>strftime\<close> below.
\<close>

type_synonym datetime = int

definition days_between :: "datetime \<Rightarrow> datetime \<Rightarrow> int" where
  "days_between a b = (a - b) div 86400000000"

text \<open>
  The model package written by \<open>retrain_model\<close> and read back by
  \<open>_evaluate_current_model\<close>: the nested dict, one record per level. The key \<open>mse\<close> of
  \<open>performance_metrics\<close> is the field \<open>test_mse\<close>.
\<close>

record performance_metrics =
  r2_score :: pyfloat
  test_mse :: pyfloat
  train_r2 :: pyfloat
  roi :: pyfloat

record 'm model_info =
  model_name :: string
  model_object :: 'm
  features :: "string list"
  optimal_threshold :: pyfloat
  performance_metrics :: performance_metrics

record training_info =
  training_date :: datetime
  training_samples :: nat
  test_samples :: nat
  feature_count :: nat
  retraining_version :: string

record 'm model_system =
  model_info :: "'m model_info"
  training_info :: training_info

text \<open>The training log and the report, as \<open>_update_training_log\<close> and
  \<open>_generate_retraining_report\<close> write them.\<close>

record log_entry =
  last_training_date :: datetime
  performance :: pyfloat
  sample_count :: nat
  training_type :: string

record report_performance =
  report_r2_score :: pyfloat
  report_sample_count :: nat
  report_feature_count :: nat

record report =
  retraining_timestamp :: datetime
  model_performance :: report_performance
  report_training_info :: training_info
  status :: string

text \<open>
  What a file of the working directory holds: one of the structured files this program
  writes, or anything else (\<open>Garbage\<close>: a truncated or foreign file, or one without the
  keys that are read, which every loader rejects with an exception).
\<close>

datatype 'm content =
    Pickle "'m model_system"
  | TrainingLog log_entry
  | Report report
  | Csv dataframe
  | Garbage

text \<open>
  The world a run acts on: the files of the working directory by name, the SQLite database
  behind \<open>self.db\<close> (of an abstract type, observed through the queries below), and the number
  of clock readings taken so far. Log messages go to the stream handler (the root logger is
  configured by database\_integration before this module names its file handler) and are not
  part of the world.
\<close>

record ('m, 'db) world =
  files :: "string \<rightharpoonup> 'm content"
  db :: 'db
  ticks :: nat

text \<open>
  What the run does not control: which I/O operations fail, the clock, the SQL engine and the
  learning library. \<open>io_fails\<close> says which operation raises \<open>OSError\<close>; \<open>time_at k\<close> is the
  \<open>k\<close>-th reading of \<open>datetime.now()\<close>; the three queries are those of
  \<open>EquipmentDatabase.get_equipment_data\<close>, \<open>export_data_for_ml\<close> and
  \<open>_count_new_data_points\<close>; \<open>import_csv\<close> is the database that \<open>import_csv_data\<close> leaves
  once it has read a table (it swallows its own errors); the \<open>sk\<close> functions are
  \<open>train_test_split\<close>, \<open>RandomForestRegressor.fit\<close>, \<open>predict\<close>, \<open>r2_score\<close> and
  \<open>mean_squared_error\<close>.
\<close>

datatype io_op =
    OpenRead string | OpenWrite string | WriteData string
  | Rename string string | Remove string

record ('m, 'db) env =
  io_fails :: "io_op \<Rightarrow> bool"
  time_at :: "nat \<Rightarrow> datetime"
  strftime :: "datetime \<Rightarrow> string"
  get_equipment_data :: "'db \<Rightarrow> error + dataframe"
  export_query :: "'db \<Rightarrow> error + dataframe"
  count_readings_since :: "'db \<Rightarrow> datetime \<Rightarrow> error + int"
  import_csv :: "dataframe \<Rightarrow> 'db \<Rightarrow> 'db"
  sk_train_test_split ::
    "dataframe \<Rightarrow> cell list \<Rightarrow> error + (dataframe \<times> dataframe \<times> cell list \<times> cell list)"
  sk_fit :: "dataframe \<Rightarrow> cell list \<Rightarrow> error + 'm"
  sk_predict :: "'m \<Rightarrow> dataframe \<Rightarrow> error + pyfloat list"
  sk_r2_score :: "cell list \<Rightarrow> pyfloat list \<Rightarrow> error + pyfloat"
  sk_mean_squared_error :: "cell list \<Rightarrow> pyfloat list \<Rightarrow> error + pyfloat"

text \<open>Sequencing: a step that raised ends the sequence with its error and its world.\<close>

definition andthen ::
  "(error + 'a) \<times> 's \<Rightarrow> ('a \<Rightarrow> 's \<Rightarrow> (error + 'b) \<times> 's) \<Rightarrow> (error + 'b) \<times> 's" where
  "andthen r f = (case r of (Inl e, s) \<Rightarrow> (Inl e, s) | (Inr a, s) \<Rightarrow> f a s)"

definition pure_then :: "error + 'a \<Rightarrow> ('a \<Rightarrow> error + 'b) \<Rightarrow> error + 'b" where
  "pure_then r f = (case r of Inl e \<Rightarrow> Inl e | Inr a \<Rightarrow> f a)"

subsection \<open>The fixed file names\<close>

abbreviation production_path :: string where
  "production_path \<equiv> ''complete_equipment_failure_prediction_system.pkl''"

abbreviation training_log_path :: string where
  "training_log_path \<equiv> ''model_training_log.json''"

abbreviation temp_eval_path :: string where
  "temp_eval_path \<equiv> ''temp_eval_data.csv''"

abbreviation retraining_data_path :: string where
  "retraining_data_path \<equiv> ''retraining_data.csv''"

abbreviation target_col :: string where
  "target_col \<equiv> ''failure_probability''"

definition retrained_filename :: "string \<Rightarrow> string" where
  "retrained_filename stamp = ''retrained_model_'' @ stamp @ ''.pkl''"

definition backup_name :: "string \<Rightarrow> string" where
  "backup_name stamp = ''model_backup_'' @ stamp @ ''.pkl''"

definition report_filename :: "string \<Rightarrow> string" where
  "report_filename stamp = ''retraining_report_'' @ stamp @ ''.json''"

subsection \<open>Operating-system and library calls\<close>

definition now :: "('m, 'db) env \<Rightarrow> ('m, 'db) world \<Rightarrow> datetime \<times> ('m, 'db) world" where
  "now env w = (time_at env (ticks w), w\<lparr>ticks := Suc (ticks w)\<rparr>)"

definition path_exists :: "('m, 'db) world \<Rightarrow> string \<Rightarrow> bool" where
  "path_exists w p = (files w p \<noteq> None)"

text \<open>
  \<open>os.rename(src, dst)\<close>: raises when the operation fails or \<open>src\<close> is missing; otherwise
  \<open>dst\<close> holds what \<open>src\<close> held (replacing any file there, as on POSIX) and \<open>src\<close> is
  gone.
\<close>

definition os_rename ::
  "('m, 'db) env \<Rightarrow> string \<Rightarrow> string \<Rightarrow> ('m, 'db) world \<Rightarrow> (error + unit) \<times> ('m, 'db) world" where
  "os_rename env src dst w =
     (if io_fails env (Rename src dst) then (Inl OSError, w)
      else case files w src of
             None \<Rightarrow> (Inl FileNotFoundError, w)
           | Some c \<Rightarrow> (Inr (), w\<lparr>files := ((files w)(src := None))(dst \<mapsto> c)\<rparr>))"

definition os_remove ::
  "('m, 'db) env \<Rightarrow> string \<Rightarrow> ('m, 'db) world \<Rightarrow> (error + unit) \<times> ('m, 'db) world" where
  "os_remove env p w =
     (if io_fails env (Remove p) then (Inl OSError, w)
      else case files w p of
             None \<Rightarrow> (Inl FileNotFoundError, w)
           | Some c \<Rightarrow> (Inr (), w\<lparr>files := (files w)(p := None)\<rparr>))"

text \<open>
  \<open>with open(p, 'w') as f: dump(c, f)\<close> and \<open>df.to_csv(p)\<close>: opening may fail (the file is
  untouched); writing may fail after the file was truncated (it is left as garbage).
\<close>

definition write_file ::
  "('m, 'db) env \<Rightarrow> string \<Rightarrow> 'm content \<Rightarrow> ('m, 'db) world \<Rightarrow> (error + unit) \<times> ('m, 'db) world" where
  "write_file env p c w =
     (if io_fails env (OpenWrite p) then (Inl OSError, w)
      else if io_fails env (WriteData p) then (Inl OSError, w\<lparr>files := (files w)(p \<mapsto> Garbage)\<rparr>)
      else (Inr (), w\<lparr>files := (files w)(p \<mapsto> c)\<rparr>))"

definition read_file :: "('m, 'db) env \<Rightarrow> string \<Rightarrow> ('m, 'db) world \<Rightarrow> error + 'm content" where
  "read_file env p w =
     (if io_fails env (OpenRead p) then Inl OSError
      else case files w p of None \<Rightarrow> Inl FileNotFoundError | Some c \<Rightarrow> Inr c)"

fun pickle_load :: "'m content \<Rightarrow> error + 'm model_system" where
  "pickle_load (Pickle ms) = Inr ms"
| "pickle_load _ = Inl UnpicklingError"

fun json_load_log :: "'m content \<Rightarrow> error + log_entry" where
  "json_load_log (TrainingLog l) = Inr l"
| "json_load_log _ = Inl ParserError"

fun parse_csv :: "'m content \<Rightarrow> error + dataframe" where
  "parse_csv (Csv df) = Inr df"
| "parse_csv _ = Inl ParserError"

definition read_csv :: "('m, 'db) env \<Rightarrow> string \<Rightarrow> ('m, 'db) world \<Rightarrow> error + dataframe" where
  "read_csv env p w = pure_then (read_file env p w) parse_csv"

section \<open>EquipmentDatabase (database\_integration.py)\<close>

text \<open>
  \<open>export_data_for_ml(output_file)\<close>: run the export query, write the table to
  \<open>output_file\<close> as CSV, return the table. Either step may raise.
\<close>

definition export_data_for_ml ::
  "('m, 'db) env \<Rightarrow> string \<Rightarrow> ('m, 'db) world \<Rightarrow> (error + dataframe) \<times> ('m, 'db) world" where
  "export_data_for_ml env output_file w =
     (case export_query env (db w) of
        Inl e \<Rightarrow> (Inl e, w)
      | Inr df \<Rightarrow> andthen (write_file env output_file (Csv df) w) (\<lambda>u w1. (Inr df, w1)))"

text \<open>
  \<open>import_csv_data(csv_file)\<close>: read the CSV and load it into the tables; any exception is
  logged and swallowed.
\<close>

definition import_csv_data ::
  "('m, 'db) env \<Rightarrow> string \<Rightarrow> ('m, 'db) world \<Rightarrow> ('m, 'db) world" where
  "import_csv_data env csv_file w =
     (case read_csv env csv_file w of
        Inl e \<Rightarrow> w
      | Inr df \<Rightarrow> w\<lparr>db := import_csv env df (db w)\<rparr>)"

section \<open>AutoModelRetrainer (auto\_retrain.py)\<close>

text \<open>The attributes set by \<open>__init__\<close>.\<close>

record retrainer =
  performance_threshold :: pyfloat
  min_new_data_points :: int
  retraining_schedule_days :: int

definition init_retrainer :: retrainer where
  "init_retrainer =
     \<lparr>performance_threshold = Fin (80 / 100), min_new_data_points = 100,
      retraining_schedule_days = 7\<rparr>"

text \<open>The entries of \<open>criteria['reasons']\<close>, one constructor per message of the source.\<close>

datatype reason =
    Scheduled int
  | NoPreviousRecord
  | SufficientNewData int
  | PerformanceDegraded pyfloat
  | CriteriaError error

record criteria =
  needs_retraining :: bool
  reasons :: "reason list"
  new_data_points :: int
  days_since_last_training :: int
  current_performance :: "pyfloat option"

definition add_reason :: "reason \<Rightarrow> criteria \<Rightarrow> criteria" where
  "add_reason r c = c\<lparr>needs_retraining := True, reasons := reasons c @ [r]\<rparr>"

subsection \<open>\<open>_get_last_training_date\<close>\<close>

text \<open>
  The date in the training log; \<open>None\<close> when there is no log, and also (bare \<open>except\<close>) when
  the log cannot be opened or parsed.
\<close>

definition get_last_training_date ::
  "('m, 'db) env \<Rightarrow> ('m, 'db) world \<Rightarrow> datetime option" where
  "get_last_training_date env w =
     (if path_exists w training_log_path then
        (case pure_then (read_file env training_log_path w) json_load_log of
           Inl e \<Rightarrow> None
         | Inr l \<Rightarrow> Some (last_training_date l))
      else None)"

subsection \<open>\<open>_count_new_data_points\<close>\<close>

text \<open>
  Without a date the whole equipment table is counted, outside any \<open>try\<close>: an error of that
  query is raised. With a date the count query runs inside \<open>try\<close>, and \<open>except: return 0\<close>.
\<close>

definition count_new_data_points ::
  "('m, 'db) env \<Rightarrow> datetime option \<Rightarrow> ('m, 'db) world \<Rightarrow> error + int" where
  "count_new_data_points env since_date w =
     (case since_date of
        None \<Rightarrow> pure_then (get_equipment_data env (db w)) (\<lambda>equipment_data. Inr (int (df_len equipment_data)))
      | Some d \<Rightarrow>
          (case count_readings_since env (db w) d of
             Inl e \<Rightarrow> Inr 0
           | Inr n \<Rightarrow> Inr n))"

subsection \<open>\<open>_evaluate_current_model\<close>\<close>

text \<open>
  \<^verbatim>\<open>
  for feature in features:
      if feature not in ml_data.columns:
          ml_data[feature] = 0
  \<close>
\<close>

definition prepare_features :: "string list \<Rightarrow> dataframe \<Rightarrow> dataframe" where
  "prepare_features fs ml_data =
     foldl (\<lambda>df feature. if \<not> has_column feature df then add_zero_column feature df else df) ml_data fs"

text \<open>
  The body of the \<open>try\<close>. The export writes \<open>temp_eval_data.csv\<close>; the file is removed only
  on the path that reaches the score.
\<close>

definition evaluate_body ::
  "('m, 'db) env \<Rightarrow> ('m, 'db) world \<Rightarrow> (error + pyfloat option) \<times> ('m, 'db) world" where
  "evaluate_body env w =
     (if \<not> path_exists w production_path then (Inr None, w)
      else
        (case pure_then (read_file env production_path w) pickle_load of
           Inl e \<Rightarrow> (Inl e, w)
         | Inr loaded \<Rightarrow>
             let model = model_object (model_info loaded);
                 fs = features (model_info loaded)
             in andthen (export_data_for_ml env temp_eval_path w) (\<lambda>ml_data w1.
                  if df_empty ml_data \<or> \<not> has_column target_col ml_data then (Inr None, w1)
                  else
                    let ml_data2 = prepare_features fs ml_data;
                        X = fillna0 (select_columns fs ml_data2);
                        y = get_column target_col ml_data2
                    in (case pure_then (sk_predict env model X) (\<lambda>predictions. sk_r2_score env y predictions) of
                          Inl e \<Rightarrow> (Inl e, w1)
                        | Inr score \<Rightarrow>
                            if path_exists w1 temp_eval_path
                            then andthen (os_remove env temp_eval_path w1) (\<lambda>u w2. (Inr (Some score), w2))
                            else (Inr (Some score), w1)))))"

text \<open>\<open>except Exception: return None\<close>.\<close>

definition evaluate_current_model ::
  "('m, 'db) env \<Rightarrow> ('m, 'db) world \<Rightarrow> pyfloat option \<times> ('m, 'db) world" where
  "evaluate_current_model env w =
     (case evaluate_body env w of
        (Inl e, w1) \<Rightarrow> (None, w1)
      | (Inr r, w1) \<Rightarrow> (r, w1))"

subsection \<open>\<open>check_retraining_criteria\<close>\<close>

text \<open>
  The schedule check (lines 46 to 58): reads the clock once when a date is known.
\<close>

definition check_schedule ::
  "retrainer \<Rightarrow> ('m, 'db) env \<Rightarrow> datetime option \<Rightarrow> criteria \<Rightarrow> ('m, 'db) world
     \<Rightarrow> criteria \<times> ('m, 'db) world" where
  "check_schedule self env last_date c w =
     (case last_date of
        Some d \<Rightarrow>
          let (t, w1) = now env w;
              days_since = days_between t d;
              c1 = c\<lparr>days_since_last_training := days_since\<rparr>
          in (if retraining_schedule_days self \<le> days_since
              then add_reason (Scheduled days_since) c1 else c1, w1)
      | None \<Rightarrow> (add_reason NoPreviousRecord c, w))"

text \<open>
  \<open>current_performance and current_performance < self.performance_threshold\<close>: false for
  \<open>None\<close> and for the falsy score 0.0.
\<close>

definition performance_degraded :: "retrainer \<Rightarrow> pyfloat option \<Rightarrow> bool" where
  "performance_degraded self cp =
     (case cp of None \<Rightarrow> False | Some x \<Rightarrow> truthy x \<and> flt x (performance_threshold self))"

definition check_retraining_criteria ::
  "retrainer \<Rightarrow> ('m, 'db) env \<Rightarrow> ('m, 'db) world \<Rightarrow> criteria \<times> ('m, 'db) world" where
  "check_retraining_criteria self env w =
     (let c0 = \<lparr>needs_retraining = False, reasons = [], new_data_points = 0,
                days_since_last_training = 0, current_performance = None\<rparr>;
          last_date = get_last_training_date env w;
          (c1, w1) = check_schedule self env last_date c0 w
      in case count_new_data_points env last_date w1 of
           Inl e \<Rightarrow> (add_reason (CriteriaError e) c1, w1)
         | Inr new_data_count \<Rightarrow>
             let c2 = c1\<lparr>new_data_points := new_data_count\<rparr>;
                 c3 = (if min_new_data_points self \<le> new_data_count
                       then add_reason (SufficientNewData new_data_count) c2 else c2);
                 (cp, w2) = evaluate_current_model env w1;
                 c4 = c3\<lparr>current_performance := cp\<rparr>;
                 c5 = (case cp of
                         Some x \<Rightarrow> if performance_degraded self cp
                                   then add_reason (PerformanceDegraded x) c4 else c4
                       | None \<Rightarrow> c4)
             in (c5, w2))"

subsection \<open>\<open>_ensure_database_has_data\<close> and \<open>_load_training_data_from_csv\<close>\<close>

definition ensure_database_has_data ::
  "('m, 'db) env \<Rightarrow> ('m, 'db) world \<Rightarrow> ('m, 'db) world" where
  "ensure_database_has_data env w =
     (case get_equipment_data env (db w) of
        Inl e \<Rightarrow> w
      | Inr equipment_data \<Rightarrow>
          if df_len equipment_data = 0 then
            (if path_exists w ''knust_classroom_equipment_dataset.csv''
             then import_csv_data env ''knust_classroom_equipment_dataset.csv'' w
             else if path_exists w ''cleaned_equipment_data.csv''
             then import_csv_data env ''cleaned_equipment_data.csv'' w
             else w)
          else w)"

definition csv_files :: "string list" where
  "csv_files =
     [''knust_classroom_equipment_dataset.csv'', ''cleaned_equipment_data.csv'',
      ''clean_equipment_data.csv'']"

text \<open>
  The loop over the CSV files: the first file that exists and has one of the two target
  columns is returned, the clean column copied to the canonical name when the canonical
  one is absent. A read error leaves the loop. After the loop: the empty table.
\<close>

fun load_csv_loop ::
  "('m, 'db) env \<Rightarrow> ('m, 'db) world \<Rightarrow> string list \<Rightarrow> error + dataframe" where
  "load_csv_loop env w [] = Inr []"
| "load_csv_loop env w (csv_file # rest) =
     (if path_exists w csv_file then
        (case read_csv env csv_file w of
           Inl e \<Rightarrow> Inl e
         | Inr df \<Rightarrow>
             if has_column target_col df \<or> has_column ''failure_probability_clean'' df then
               Inr (if has_column ''failure_probability_clean'' df \<and> \<not> has_column target_col df
                    then copy_column ''failure_probability_clean'' target_col df
                    else df)
             else load_csv_loop env w rest)
      else load_csv_loop env w rest)"

definition load_training_data_from_csv ::
  "('m, 'db) env \<Rightarrow> ('m, 'db) world \<Rightarrow> dataframe" where
  "load_training_data_from_csv env w =
     (case load_csv_loop env w csv_files of Inl e \<Rightarrow> [] | Inr df \<Rightarrow> df)"

subsection \<open>\<open>_update_training_log\<close> and \<open>_generate_retraining_report\<close>\<close>

definition update_training_log ::
  "('m, 'db) env \<Rightarrow> pyfloat \<Rightarrow> nat \<Rightarrow> ('m, 'db) world \<Rightarrow> (error + unit) \<times> ('m, 'db) world" where
  "update_training_log env perf_value n w =
     (let (t, w1) = now env w;
          log_entry = \<lparr>last_training_date = t, performance = perf_value, sample_count = n,
                       training_type = ''automated_retraining''\<rparr>
      in write_file env training_log_path (TrainingLog log_entry) w1)"

definition generate_retraining_report ::
  "('m, 'db) env \<Rightarrow> 'm model_system \<Rightarrow> nat \<Rightarrow> pyfloat \<Rightarrow> ('m, 'db) world
     \<Rightarrow> (error + unit) \<times> ('m, 'db) world" where
  "generate_retraining_report env ms n perf_value w =
     (let (t, w1) = now env w;
          rep = \<lparr>retraining_timestamp = t,
                 model_performance =
                   \<lparr>report_r2_score = perf_value, report_sample_count = n,
                    report_feature_count = length (features (model_info ms))\<rparr>,
                 report_training_info = training_info ms,
                 status = ''completed_successfully''\<rparr>;
          (t2, w2) = now env w1
      in write_file env (report_filename (strftime env t2)) (Report rep) w2)"

subsection \<open>\<open>retrain_model\<close>\<close>

text \<open>
  Lines 216 to 225: make sure the database has rows, export it to \<open>retraining_data.csv\<close>,
  and fall back to the CSV files when the export is empty.
\<close>

definition resolve_training_data ::
  "('m, 'db) env \<Rightarrow> ('m, 'db) world \<Rightarrow> (error + dataframe) \<times> ('m, 'db) world" where
  "resolve_training_data env w =
     (let w0 = ensure_database_has_data env w
      in andthen (export_data_for_ml env retraining_data_path w0) (\<lambda>training_data w1.
           if df_empty training_data
           then (Inr (load_training_data_from_csv env w1), w1)
           else (Inr training_data, w1)))"

text \<open>
  Lines 249 to 262: split, fit, predict and score. The result is the fitted model, the train
  and test scores, the test error and the sizes of the two parts.
\<close>

definition fit_and_score ::
  "('m, 'db) env \<Rightarrow> dataframe \<Rightarrow> cell list
     \<Rightarrow> error + ('m \<times> pyfloat \<times> pyfloat \<times> pyfloat \<times> nat \<times> nat)" where
  "fit_and_score env X y =
     pure_then (sk_train_test_split env X y) (\<lambda>(X_train, X_test, y_train, y_test).
     pure_then (sk_fit env X_train y_train) (\<lambda>model.
     pure_then (sk_predict env model X_train) (\<lambda>train_predictions.
     pure_then (sk_predict env model X_test) (\<lambda>test_predictions.
     pure_then (sk_r2_score env y_train train_predictions) (\<lambda>train_score.
     pure_then (sk_r2_score env y_test test_predictions) (\<lambda>test_score.
     pure_then (sk_mean_squared_error env y_test test_predictions) (\<lambda>test_error.
       Inr (model, train_score, test_score, test_error, df_len X_train, df_len X_test))))))))"

text \<open>
  What lines 239 to 294 hand to the rest of the run: the new model package, its held-out
  score \<open>test_r2\<close>, and the name of the file it was saved under.
\<close>

record 'm trained =
  new_system :: "'m model_system"
  test_r2 :: pyfloat
  saved_as :: string

definition train_and_save ::
  "('m, 'db) env \<Rightarrow> dataframe \<Rightarrow> ('m, 'db) world \<Rightarrow> (error + 'm trained) \<times> ('m, 'db) world" where
  "train_and_save env training_data w =
     (let numeric_cols = map col_name (filter numeric training_data);
          feature_cols = filter (\<lambda>col. col \<noteq> target_col) numeric_cols;
          X = fillna0 (select_columns feature_cols training_data);
          y = get_column target_col training_data
      in case fit_and_score env X y of
           Inl e \<Rightarrow> (Inl e, w)
         | Inr (model, train_score, test_score, test_error, n_train, n_test) \<Rightarrow>
             let (t, w1) = now env w;
                 ms = \<lparr>model_info =
                         \<lparr>model_name = ''Random Forest (Retrained)'', model_object = model,
                          features = feature_cols, optimal_threshold = Fin (1 / 2),
                          performance_metrics =
                            \<lparr>r2_score = test_score, test_mse = test_error,
                             train_r2 = train_score, roi = Fin 250\<rparr>\<rparr>,
                       training_info =
                         \<lparr>training_date = t, training_samples = n_train, test_samples = n_test,
                          feature_count = length feature_cols,
                          retraining_version = ''auto_v1.0''\<rparr>\<rparr>;
                 (t2, w2) = now env w1;
                 fname = retrained_filename (strftime env t2)
             in andthen (write_file env fname (Pickle ms) w2) (\<lambda>u w3.
                  (Inr \<lparr>new_system = ms, test_r2 = test_score, saved_as = fname\<rparr>, w3)))"

text \<open>
  \<open>current_performance is None or test_r2 > current_performance\<close>.
\<close>

definition better_than_current :: "pyfloat \<Rightarrow> pyfloat option \<Rightarrow> bool" where
  "better_than_current new_r2 current_r2 =
     (case current_r2 of None \<Rightarrow> True | Some c \<Rightarrow> flt c new_r2)"

text \<open>
  Lines 296 to 309: evaluate the production model; when the new one is better, rename the
  production file (if there is one) to a stamped backup, then rename the new file to the
  production path. Nothing catches a failing rename here.
\<close>

definition promote_if_better ::
  "('m, 'db) env \<Rightarrow> pyfloat \<Rightarrow> string \<Rightarrow> ('m, 'db) world \<Rightarrow> (error + unit) \<times> ('m, 'db) world" where
  "promote_if_better env new_r2 fname w =
     (let (cp, w1) = evaluate_current_model env w
      in if better_than_current new_r2 cp then
           andthen
             (if path_exists w1 production_path then
                (let (t, w2) = now env w1
                 in os_rename env production_path (backup_name (strftime env t)) w2)
              else (Inr (), w1))
             (\<lambda>u w3. os_rename env fname production_path w3)
         else (Inr (), w1))"

text \<open>Lines 317 to 321: remove the exported CSV and return \<open>True\<close>.\<close>

definition clean_up ::
  "('m, 'db) env \<Rightarrow> ('m, 'db) world \<Rightarrow> (error + bool) \<times> ('m, 'db) world" where
  "clean_up env w =
     (if path_exists w retraining_data_path
      then andthen (os_remove env retraining_data_path w) (\<lambda>u w1. (Inr True, w1))
      else (Inr True, w))"

text \<open>
  Lines 311 to 321: write the training log and the report, then clean up. \<open>n\<close> is
  \<open>len(training_data)\<close>.
\<close>

definition record_run ::
  "('m, 'db) env \<Rightarrow> 'm trained \<Rightarrow> nat \<Rightarrow> ('m, 'db) world \<Rightarrow> (error + bool) \<times> ('m, 'db) world" where
  "record_run env tr n w =
     andthen (update_training_log env (test_r2 tr) n w) (\<lambda>u w4.
     andthen (generate_retraining_report env (new_system tr) n (test_r2 tr) w4) (\<lambda>u w5.
       clean_up env w5))"

text \<open>The body of the \<open>try\<close> of \<open>retrain_model\<close>, in the order of the source.\<close>

definition retrain_body ::
  "('m, 'db) env \<Rightarrow> ('m, 'db) world \<Rightarrow> (error + bool) \<times> ('m, 'db) world" where
  "retrain_body env w =
     andthen (resolve_training_data env w) (\<lambda>training_data w1.
       if df_empty training_data then (Inr False, w1)
       else if \<not> has_column target_col training_data then (Inr False, w1)
       else
         andthen (train_and_save env training_data w1) (\<lambda>tr w2.
         andthen (promote_if_better env (test_r2 tr) (saved_as tr) w2) (\<lambda>u w3.
           record_run env tr (df_len training_data) w3)))"

text \<open>\<open>except Exception: return False\<close>.\<close>

definition retrain_model ::
  "('m, 'db) env \<Rightarrow> ('m, 'db) world \<Rightarrow> bool \<times> ('m, 'db) world" where
  "retrain_model env w =
     (case retrain_body env w of
        (Inl e, w1) \<Rightarrow> (False, w1)
      | (Inr b, w1) \<Rightarrow> (b, w1))"

subsection \<open>\<open>run_automated_check\<close>\<close>

definition run_automated_check ::
  "retrainer \<Rightarrow> ('m, 'db) env \<Rightarrow> ('m, 'db) world \<Rightarrow> bool \<times> ('m, 'db) world" where
  "run_automated_check self env w =
     (let (c, w1) = check_retraining_criteria self env w
      in if needs_retraining c then retrain_model env w1 else (True, w1))"

section \<open>Auxiliary notions for the properties\<close>

text \<open>
  \<open>touches_only T w w'\<close>: every file whose name is outside \<open>T\<close> is in \<open>w'\<close> what it was
  in \<open>w\<close>.
\<close>

definition touches_only ::
  "(string \<Rightarrow> bool) \<Rightarrow> ('m, 'db) world \<Rightarrow> ('m, 'db) world \<Rightarrow> bool" where
  "touches_only T w w' = (\<forall>p. \<not> T p \<longrightarrow> files w' p = files w p)"

text \<open>The stamped file names, recognised by their fixed prefix.\<close>

definition is_backup_path :: "string \<Rightarrow> bool" where
  "is_backup_path p = prefix ''model_backup_'' p"

definition is_retrained_path :: "string \<Rightarrow> bool" where
  "is_retrained_path p = prefix ''retrained_model_'' p"

definition is_report_path :: "string \<Rightarrow> bool" where
  "is_report_path p = prefix ''retraining_report_'' p"

text \<open>
  How far \<open>retrain_model\<close> gets before line 296: an exception stopped it, it returned
  \<open>False\<close> for lack of data or of the target column, or it holds a trained candidate, saved
  under its own name, in the world \<open>w2\<close>.
\<close>

datatype ('m, 'db) stage =
    Stopped error | NoData | NoTarget | Candidate "'m trained" "('m, 'db) world"

definition candidate_stage :: "('m, 'db) env \<Rightarrow> ('m, 'db) world \<Rightarrow> ('m, 'db) stage" where
  "candidate_stage env w =
     (case resolve_training_data env w of
        (Inl e, w1) \<Rightarrow> Stopped e
      | (Inr training_data, w1) \<Rightarrow>
          if df_empty training_data then NoData
          else if \<not> has_column target_col training_data then NoTarget
          else (case train_and_save env training_data w1 of
                  (Inl e, w2) \<Rightarrow> Stopped e
                | (Inr tr, w2) \<Rightarrow> Candidate tr w2))"

subsection \<open>Example runs\<close>

text \<open>
  A small table, a model package and an environment in which nothing fails. The fitted
  model is its own score: \<open>fit\<close> returns \<open>new_score\<close>, \<open>predict\<close> returns it, and
  \<open>r2_score\<close> reads it back, so a model of score \<open>s\<close> evaluates to \<open>s\<close>. The clock stands
  three days after the date of \<open>demo_log\<close>.
\<close>

definition demo_table :: dataframe where
  "demo_table =
     [\<lparr>col_name = ''age_months'', numeric = True, cells = [Num (Fin 12), Num (Fin 30)]\<rparr>,
      \<lparr>col_name = ''failure_probability'', numeric = True, cells = [Num (Fin (1/2)), Num (Fin (1/4))]\<rparr>]"

definition demo_env :: "real \<Rightarrow> (real, unit) env" where
  "demo_env new_score =
     \<lparr>io_fails = (\<lambda>op. False), time_at = (\<lambda>k. 3 * 86400000000), strftime = (\<lambda>t. ''20250101_000000''),
      get_equipment_data = (\<lambda>d. Inr demo_table), export_query = (\<lambda>d. Inr demo_table),
      count_readings_since = (\<lambda>d t. Inr 0), import_csv = (\<lambda>df d. d),
      sk_train_test_split = (\<lambda>X y. Inr (X, X, y, y)),
      sk_fit = (\<lambda>X y. Inr new_score),
      sk_predict = (\<lambda>m X. Inr [Fin m]),
      sk_r2_score = (\<lambda>y ps. case ps of [s] \<Rightarrow> Inr s | _ \<Rightarrow> Inl ValueError),
      sk_mean_squared_error = (\<lambda>y ps. Inr (Fin 0))\<rparr>"

definition demo_system :: "real \<Rightarrow> real model_system" where
  "demo_system score =
     \<lparr>model_info =
        \<lparr>model_name = ''Random Forest'', model_object = score, features = [''age_months''],
         optimal_threshold = Fin (1 / 2),
         performance_metrics = \<lparr>r2_score = Fin score, test_mse = Fin 0, train_r2 = Fin score, roi = Fin 250\<rparr>\<rparr>,
      training_info =
        \<lparr>training_date = 0, training_samples = 2, test_samples = 2, feature_count = 1,
         retraining_version = ''v1''\<rparr>\<rparr>"

definition demo_log :: log_entry where
  "demo_log = \<lparr>last_training_date = 0, performance = Fin (9 / 10), sample_count = 2,
                training_type = ''automated_retraining''\<rparr>"

definition demo_world :: "real content option \<Rightarrow> real content option \<Rightarrow> (real, unit) world" where
  "demo_world production training_log =
     \<lparr>files = (Map.empty(production_path := production))(training_log_path := training_log),
      db = (), ticks = 0\<rparr>"

definition failing_count_env :: "(real, unit) env" where
  "failing_count_env = (demo_env (9/10))\<lparr>count_readings_since := \<lambda>d t. Inl DatabaseError\<rparr>"

definition failing_equipment_env :: "(real, unit) env" where
  "failing_equipment_env = (demo_env (9/10))\<lparr>get_equipment_data := \<lambda>d. Inl DatabaseError\<rparr>"

definition empty_export_env :: "(real, unit) env" where
  "empty_export_env = (demo_env (9/10))\<lparr>export_query := \<lambda>d. Inr []\<rparr>"

text \<open>A run in which only the final rename, of the new file to the production path, fails.\<close>

definition failing_rename_env :: "(real, unit) env" where
  "failing_rename_env =
     (demo_env (82/100))\<lparr>io_fails :=
        (\<lambda>op. op = Rename (retrained_filename ''20250101_000000'') production_path)\<rparr>"

text \<open>
  The candidate that the example runs train, and the world in which they hold it: the export
  and the saved candidate have been written, and the clock has been read twice.
\<close>

definition demo_trained :: "real \<Rightarrow> real trained" where
  "demo_trained s =
     \<lparr>new_system =
        \<lparr>model_info =
           \<lparr>model_name = ''Random Forest (Retrained)'', model_object = s,
            features = [''age_months''], optimal_threshold = Fin (1 / 2),
            performance_metrics =
              \<lparr>r2_score = Fin s, test_mse = Fin 0, train_r2 = Fin s, roi = Fin 250\<rparr>\<rparr>,
         training_info =
           \<lparr>training_date = 3 * 86400000000, training_samples = 2, test_samples = 2,
            feature_count = 1, retraining_version = ''auto_v1.0''\<rparr>\<rparr>,
      test_r2 = Fin s, saved_as = retrained_filename ''20250101_000000''\<rparr>"

definition demo_trained_world :: "real \<Rightarrow> real \<Rightarrow> (real, unit) world" where
  "demo_trained_world old s =
     \<lparr>files = (files (demo_world (Some (Pickle (demo_system old))) None))
                (retraining_data_path \<mapsto> Csv demo_table,
                 retrained_filename ''20250101_000000'' \<mapsto> Pickle (new_system (demo_trained s))),
      db = (), ticks = 2\<rparr>"

text \<open>The \<open>status\<close> field of the report held by a file, if it holds one.\<close>

fun report_status :: "'m content option \<Rightarrow> string option" where
  "report_status (Some (Report rep)) = Some (status rep)"
| "report_status _ = None"

section \<open>Properties of the ensemble composer\<close>

lemma py_sum_fin_aux: "foldl fadd (Fin a) (map (\<lambda>x. Fin (f x)) xs) = Fin (a + sum_list (map f xs))"
  by (induction xs arbitrary: a) (simp_all add: add.assoc)

lemma update_fresh: "k \<notin> fst ` set al \<Longrightarrow> AList.update k v al = al @ [(k, v)]"
  by (induction al) auto

lemma fold_update_fresh:
  "distinct (map fst mp) \<Longrightarrow> fst ` set mp \<inter> fst ` set acc = {} \<Longrightarrow>
   foldl (\<lambda>w (name, p). AList.update name (f p) w) acc mp = acc @ map (\<lambda>(name, p). (name, f p)) mp"
proof (induction mp arbitrary: acc)
  case Nil then show ?case by simp
next
  case (Cons x mp)
  obtain n p where x: "x = (n, p)" by (cases x)
  have fresh: "n \<notin> fst ` set acc" using Cons.prems(2) x by auto
  have d: "distinct (map fst mp)" using Cons.prems(1) by simp
  have nn: "n \<notin> fst ` set mp" using Cons.prems(1) x by simp
  have disj: "fst ` set mp \<inter> fst ` set (acc @ [(n, f p)]) = {}"
    using Cons.prems(2) nn x by auto
  show ?case using Cons.IH[OF d disj] fresh x by (simp add: update_fresh)
qed

lemma create_ensemble_model_fresh:
  "distinct (map fst mp) \<Longrightarrow>
   create_ensemble_model mp [] = map (\<lambda>(name, p). (name, fdiv (cv_mean p) (total_cv_score mp))) mp"
  unfolding create_ensemble_model_def Let_def
  using fold_update_fresh[of mp "[]" "\<lambda>p. fdiv (cv_mean p) (total_cv_score mp)"] by simp

lemma all_finite_map: "all_finite mp \<Longrightarrow> map (\<lambda>(name, p). cv_mean p) mp = map (\<lambda>x. Fin (case x of (name, p) \<Rightarrow> cv_real p)) mp"
  unfolding all_finite_def cv_real_def
  by (induction mp) (auto elim: is_fin.elims)

lemma total_cv_score_fin: "all_finite mp \<Longrightarrow> total_cv_score mp = Fin (cv_total mp)"
  unfolding total_cv_score_def py_sum_def cv_total_def
  by (simp add: all_finite_map py_sum_fin_aux)

lemma weights_finite:
  assumes "distinct (map fst mp)" "all_finite mp" "cv_total mp \<noteq> 0"
  shows "create_ensemble_model mp [] = map (\<lambda>(name, p). (name, Fin (cv_real p / cv_total mp))) mp"
proof -
  have "\<And>x. x \<in> set mp \<Longrightarrow> (case x of (name, p) \<Rightarrow> (name, fdiv (cv_mean p) (Fin (cv_total mp))))
       = (case x of (name, p) \<Rightarrow> (name, Fin (cv_real p / cv_total mp)))"
    using assms(2,3) unfolding all_finite_def cv_real_def list_all_iff
    by (auto elim!: is_fin.elims)
  then show ?thesis
    using assms(1,2) by (simp add: create_ensemble_model_fresh total_cv_score_fin)
qed

lemma sum_list_div: "sum_list (map (\<lambda>x. g x / (t::real)) xs) = sum_list (map g xs) / t"
  by (induction xs) (simp_all add: add_divide_distrib)

lemma weights_sum:
  assumes "distinct (map fst mp)" "all_finite mp" "cv_total mp \<noteq> 0"
  shows "py_sum (map snd (create_ensemble_model mp [])) = Fin 1"
proof -
  have m: "map snd (map (\<lambda>(name, p). (name, Fin (cv_real p / cv_total mp))) mp)
        = map (\<lambda>x. Fin ((case x of (name, p) \<Rightarrow> cv_real p) / cv_total mp)) mp"
    by (induction mp) auto
  have s: "sum_list (map (\<lambda>x. (case x of (name, p) \<Rightarrow> cv_real p) / cv_total mp) mp) = cv_total mp / cv_total mp"
    unfolding cv_total_def by (rule sum_list_div)
  have "py_sum (map snd (create_ensemble_model mp []))
        = py_sum (map (\<lambda>x. Fin ((case x of (name, p) \<Rightarrow> cv_real p) / cv_total mp)) mp)"
    by (simp only: weights_finite[OF assms] m)
  also have "\<dots> = Fin (cv_total mp / cv_total mp)"
    unfolding py_sum_def by (simp only: py_sum_fin_aux s) simp
  finally show ?thesis using assms(3) by simp
qed


lemma nonneg_pos_total:
  assumes "list_all (\<lambda>(name, p). 0 \<le> cv_real p) mp" "list_ex (\<lambda>(name, p). 0 < cv_real p) mp"
  shows "0 < cv_total mp"
  using assms unfolding cv_total_def
proof (induction mp)
  case Nil then show ?case by simp
next
  case (Cons x mp)
  have nn: "0 \<le> sum_list (map (\<lambda>(name, p). cv_real p) mp)"
    using Cons.prems(1) by (induction mp) auto
  show ?case using Cons nn by (cases x) (auto simp: add_pos_nonneg add_nonneg_pos)
qed




text \<open>When every mean is zero the division is 0/0 and every weight is NaN.\<close>

lemma all_zero_weights_nan:
  "create_ensemble_model [(''a'', cand 0), (''b'', cand 0)] [] = [(''a'', NaN), (''b'', NaN)]"
  by (simp add: create_ensemble_model_def total_cv_score_def py_sum_def cand_def)

lemma exact_instance:
  "create_ensemble_model_r (\<lambda>x. x) mp ew = create_ensemble_model mp ew"
proof -
  have r: "round_fin (\<lambda>x. x) = (\<lambda>x. x)"
    by (auto simp: round_fin_def fun_eq_iff split: pyfloat.splits)
  have a: "fadd_r (\<lambda>x. x) = fadd" and d: "fdiv_r (\<lambda>x. x) = fdiv"
    by (simp_all add: fadd_r_def fdiv_r_def r fun_eq_iff)
  show ?thesis
    by (simp add: create_ensemble_model_r_def create_ensemble_model_def total_cv_score_r_def
          total_cv_score_def py_sum_r_def py_sum_def a d)
qed

lemma rnd_bounds:
  assumes H: "\<forall>x. \<bar>rnd x - x\<bar> \<le> u * \<bar>x\<bar>" and y: "0 \<le> (y::real)"
  shows "(1 - u) * y \<le> rnd y" "rnd y \<le> (1 + u) * y"
proof -
  have "\<bar>rnd y - y\<bar> \<le> u * y" using H[rule_format, of y] y by simp
  then have "- (u * y) \<le> rnd y - y" "rnd y - y \<le> u * y" by (simp_all add: abs_le_iff)
  then show "(1 - u) * y \<le> rnd y" "rnd y \<le> (1 + u) * y" by (simp_all add: algebra_simps)
qed

lemma sum_r_bounds:
  assumes H: "\<forall>x. \<bar>rnd x - x\<bar> \<le> u * \<bar>x\<bar>" and u: "0 \<le> u" "u < 1"
  shows "list_all (\<lambda>x. 0 \<le> x) xs \<Longrightarrow> 0 \<le> a \<Longrightarrow>
     \<exists>s. foldl (fadd_r rnd) (Fin a) (map Fin xs) = Fin s
        \<and> (1 - u) ^ length xs * (a + sum_list xs) \<le> s
        \<and> s \<le> (1 + u) ^ length xs * (a + sum_list xs)"
proof (induction xs arbitrary: a)
  case Nil
  then show ?case by simp
next
  case (Cons x xs)
  let ?a' = "rnd (a + x)"
  have x: "0 \<le> x" and xs: "list_all (\<lambda>x. 0 \<le> x) xs" using Cons.prems(1) by simp_all
  have ax: "0 \<le> a + x" using x Cons.prems(2) by simp
  have b: "(1 - u) * (a + x) \<le> ?a'" "?a' \<le> (1 + u) * (a + x)"
    using rnd_bounds[OF H ax] by simp_all
  have a'0: "0 \<le> ?a'"
    using b(1) ax u by (meson mult_nonneg_nonneg order_trans diff_ge_0_iff_ge less_imp_le)
  obtain s where s: "foldl (fadd_r rnd) (Fin ?a') (map Fin xs) = Fin s"
     "(1 - u) ^ length xs * (?a' + sum_list xs) \<le> s"
     "s \<le> (1 + u) ^ length xs * (?a' + sum_list xs)"
    using Cons.IH[OF xs a'0] by blast
  have S0: "0 \<le> sum_list xs"
    using xs by (induction xs) auto
  have lo1: "(1 - u) * (a + x + sum_list xs) \<le> ?a' + sum_list xs"
  proof -
    have "(1 - u) * sum_list xs \<le> sum_list xs"
      using S0 u by (simp add: mult_left_le_one_le)
    then show ?thesis using b(1) by (simp add: algebra_simps)
  qed
  have hi1: "?a' + sum_list xs \<le> (1 + u) * (a + x + sum_list xs)"
  proof -
    have "sum_list xs \<le> (1 + u) * sum_list xs"
      using S0 u by (simp add: algebra_simps)
    then show ?thesis using b(2) by (simp add: algebra_simps)
  qed
  have p1: "0 \<le> (1 - u) ^ length xs" "0 \<le> (1 + u) ^ length xs" using u by simp_all
  have lo: "(1 - u) ^ length (x # xs) * (a + sum_list (x # xs)) \<le> s"
  proof -
    have "(1 - u) ^ length xs * ((1 - u) * (a + x + sum_list xs))
            \<le> (1 - u) ^ length xs * (?a' + sum_list xs)"
      using lo1 p1(1) by (rule mult_left_mono)
    then show ?thesis using s(2) by (simp add: algebra_simps)
  qed
  have hi: "s \<le> (1 + u) ^ length (x # xs) * (a + sum_list (x # xs))"
  proof -
    have "(1 + u) ^ length xs * (?a' + sum_list xs)
            \<le> (1 + u) ^ length xs * ((1 + u) * (a + x + sum_list xs))"
      using hi1 p1(2) by (rule mult_left_mono)
    then show ?thesis using s(3) by (simp add: algebra_simps)
  qed
  have "foldl (fadd_r rnd) (Fin a) (map Fin (x # xs)) = Fin s"
    using s(1) by (simp add: fadd_r_def round_fin_def)
  then show ?case using lo hi by blast
qed

lemma sum_list_nonneg_real: "list_all (\<lambda>x. 0 \<le> (x::real)) xs \<Longrightarrow> 0 \<le> sum_list xs"
  by (induction xs) auto

lemma sum_list_map_mono_real:
  "(\<And>x. x \<in> set xs \<Longrightarrow> f x \<le> (g x :: real)) \<Longrightarrow> sum_list (map f xs) \<le> sum_list (map g xs)"
  by (induction xs) (auto intro: add_mono)

lemma sum_list_scaled: "sum_list (map (\<lambda>x. c * (f x / t)) xs) = c * (sum_list (map f xs) / (t::real))"
  by (induction xs) (simp_all add: algebra_simps add_divide_distrib)

lemma rounded_total:
  assumes H: "\<forall>x. \<bar>rnd x - x\<bar> \<le> u * \<bar>x\<bar>" and u: "0 \<le> u" "u < 1"
    and fin: "all_finite mp" and nn: "nonneg_means mp"
  shows "\<exists>t. total_cv_score_r rnd mp = Fin t
       \<and> (1 - u) ^ length mp * cv_total mp \<le> t \<and> t \<le> (1 + u) ^ length mp * cv_total mp"
proof -
  let ?xs = "map (\<lambda>(name, p). cv_real p) mp"
  have m: "map (\<lambda>(name, p). cv_mean p) mp = map Fin ?xs"
    using all_finite_map[OF fin] by (simp add: comp_def)
  have nn': "list_all (\<lambda>x. 0 \<le> x) ?xs"
    using nn by (simp add: nonneg_means_def list_all_iff split_def)
  obtain s where "foldl (fadd_r rnd) (Fin 0) (map Fin ?xs) = Fin s"
     "(1 - u) ^ length ?xs * (0 + sum_list ?xs) \<le> s"
     "s \<le> (1 + u) ^ length ?xs * (0 + sum_list ?xs)"
    using sum_r_bounds[OF H u nn', of 0] by auto
  then show ?thesis
    by (auto simp: total_cv_score_r_def py_sum_r_def m cv_total_def)
qed

lemma rounded_weights:
  assumes d: "distinct (map fst mp)" and fin: "all_finite mp"
    and t: "total_cv_score_r rnd mp = Fin t" and t0: "t \<noteq> 0"
  shows "create_ensemble_model_r rnd mp [] = map (\<lambda>(name, p). (name, Fin (rnd (cv_real p / t)))) mp"
proof -
  have "\<And>x. x \<in> set mp \<Longrightarrow> (case x of (name, p) \<Rightarrow> (name, fdiv_r rnd (cv_mean p) (Fin t)))
       = (case x of (name, p) \<Rightarrow> (name, Fin (rnd (cv_real p / t))))"
    using fin t0 unfolding all_finite_def cv_real_def list_all_iff fdiv_r_def round_fin_def
    by (auto elim!: is_fin.elims)
  then have "map (\<lambda>(name, p). (name, fdiv_r rnd (cv_mean p) (Fin t))) mp
       = map (\<lambda>(name, p). (name, Fin (rnd (cv_real p / t)))) mp"
    by simp
  moreover have "create_ensemble_model_r rnd mp []
       = map (\<lambda>(name, p). (name, fdiv_r rnd (cv_mean p) (Fin t))) mp"
    unfolding create_ensemble_model_r_def Let_def t
    using fold_update_fresh[OF d, of "[]" "\<lambda>p. fdiv_r rnd (cv_mean p) (Fin t)"] by simp
  ultimately show ?thesis by simp
qed

lemma rounded_weights_sum_bounds:
  assumes H: "\<forall>x. \<bar>rnd x - x\<bar> \<le> u * \<bar>x\<bar>" and u: "0 \<le> u" "u < 1"
    and d: "distinct (map fst mp)" and fin: "all_finite mp"
    and nn: "nonneg_means mp" and pos: "some_positive_mean mp"
  shows "weights_finite_values (create_ensemble_model_r rnd mp [])
       \<and> (1 - u) / (1 + u) ^ length mp \<le> weight_sum (create_ensemble_model_r rnd mp [])
       \<and> weight_sum (create_ensemble_model_r rnd mp []) \<le> (1 + u) / (1 - u) ^ length mp"
proof -
  let ?N = "length mp" and ?T = "cv_total mp"
  have T0: "0 < ?T"
    using nn pos by (simp add: nonneg_means_def some_positive_mean_def nonneg_pos_total)
  obtain t where t: "total_cv_score_r rnd mp = Fin t"
    and tlo: "(1 - u) ^ ?N * ?T \<le> t" and thi: "t \<le> (1 + u) ^ ?N * ?T"
    using rounded_total[OF H u fin nn] by blast
  have plo: "0 < (1 - u) ^ ?N" and phi: "0 < (1 + u) ^ ?N" using u by simp_all
  have tpos: "0 < t"
    using tlo T0 plo by (meson mult_pos_pos less_le_trans)
  have W: "create_ensemble_model_r rnd mp [] = map (\<lambda>(name, p). (name, Fin (rnd (cv_real p / t)))) mp"
    using rounded_weights[OF d fin t] tpos by simp
  have fv: "weights_finite_values (create_ensemble_model_r rnd mp [])"
    by (simp add: W weights_finite_values_def list_all_iff split_def)
  have ws: "weight_sum (create_ensemble_model_r rnd mp [])
        = sum_list (map (\<lambda>x. rnd ((case x of (name, p) \<Rightarrow> cv_real p) / t)) mp)"
    by (simp add: W weight_sum_def comp_def split_def)
  have el: "(1 - u) * ((case x of (name, p) \<Rightarrow> cv_real p) / t)
               \<le> rnd ((case x of (name, p) \<Rightarrow> cv_real p) / t)
          \<and> rnd ((case x of (name, p) \<Rightarrow> cv_real p) / t)
               \<le> (1 + u) * ((case x of (name, p) \<Rightarrow> cv_real p) / t)"
    if "x \<in> set mp" for x
  proof -
    have "0 \<le> (case x of (name, p) \<Rightarrow> cv_real p)"
      using nn that by (auto simp: nonneg_means_def list_all_iff)
    then have "0 \<le> (case x of (name, p) \<Rightarrow> cv_real p) / t" using tpos by simp
    then show ?thesis using rnd_bounds[OF H] by blast
  qed
  have lo1: "(1 - u) * (?T / t) \<le> weight_sum (create_ensemble_model_r rnd mp [])"
  proof -
    have "sum_list (map (\<lambda>x. (1 - u) * ((case x of (name, p) \<Rightarrow> cv_real p) / t)) mp)
          \<le> sum_list (map (\<lambda>x. rnd ((case x of (name, p) \<Rightarrow> cv_real p) / t)) mp)"
      by (rule sum_list_map_mono_real) (use el in blast)
    moreover have "sum_list (map (\<lambda>x. (1 - u) * ((case x of (name, p) \<Rightarrow> cv_real p) / t)) mp)
          = (1 - u) * (?T / t)"
      unfolding cv_total_def by (rule sum_list_scaled)
    ultimately show ?thesis by (simp only: ws)
  qed
  have hi1: "weight_sum (create_ensemble_model_r rnd mp []) \<le> (1 + u) * (?T / t)"
  proof -
    have "sum_list (map (\<lambda>x. rnd ((case x of (name, p) \<Rightarrow> cv_real p) / t)) mp)
          \<le> sum_list (map (\<lambda>x. (1 + u) * ((case x of (name, p) \<Rightarrow> cv_real p) / t)) mp)"
      by (rule sum_list_map_mono_real) (use el in blast)
    moreover have "sum_list (map (\<lambda>x. (1 + u) * ((case x of (name, p) \<Rightarrow> cv_real p) / t)) mp)
          = (1 + u) * (?T / t)"
      unfolding cv_total_def by (rule sum_list_scaled)
    ultimately show ?thesis by (simp only: ws)
  qed
  have q1: "1 / (1 + u) ^ ?N \<le> ?T / t"
  proof -
    have "t \<le> ?T * (1 + u) ^ ?N" using thi by (simp add: mult.commute)
    then have "t / (1 + u) ^ ?N \<le> ?T" using phi by (simp add: pos_divide_le_eq)
    then have "(1 / (1 + u) ^ ?N) * t \<le> ?T" by simp
    then show ?thesis using tpos by (simp add: pos_le_divide_eq)
  qed
  have q2: "?T / t \<le> 1 / (1 - u) ^ ?N"
  proof -
    have "?T * (1 - u) ^ ?N \<le> t" using tlo by (simp add: mult.commute)
    then have "?T \<le> t / (1 - u) ^ ?N" using plo by (simp add: pos_le_divide_eq)
    then have "?T \<le> (1 / (1 - u) ^ ?N) * t" by simp
    then show ?thesis using tpos by (simp add: pos_divide_le_eq)
  qed
  have lo: "(1 - u) / (1 + u) ^ ?N \<le> weight_sum (create_ensemble_model_r rnd mp [])"
  proof -
    have "(1 - u) * (1 / (1 + u) ^ ?N) \<le> (1 - u) * (?T / t)"
      using q1 u by (intro mult_left_mono) simp_all
    then show ?thesis using lo1 by simp
  qed
  have hi: "weight_sum (create_ensemble_model_r rnd mp []) \<le> (1 + u) / (1 - u) ^ ?N"
  proof -
    have "(1 + u) * (?T / t) \<le> (1 + u) * (1 / (1 - u) ^ ?N)"
      using q2 u by (intro mult_left_mono) simp_all
    then show ?thesis using hi1 by simp
  qed
  show ?thesis using fv lo hi by blast
qed

lemma power_bound_lo:
  assumes u: "0 \<le> (u::real)" "u < 1"
  shows "1 - (real N + 1) * u \<le> (1 - u) / (1 + u) ^ N"
proof -
  have b: "1 + real (Suc N) * (- u) \<le> (1 + (- u)) ^ Suc N"
    using u by (intro Bernoulli_inequality) simp
  have "(1 - u) ^ N * (1 + u) ^ N = ((1 - u) * (1 + u)) ^ N"
    by (simp add: power_mult_distrib)
  also have "\<dots> \<le> 1"
  proof (rule power_le_one)
    show "0 \<le> (1 - u) * (1 + u)" using u by simp
    have "(1 - u) * (1 + u) = 1 - u * u" by (simp add: algebra_simps)
    then show "(1 - u) * (1 + u) \<le> 1" using u by simp
  qed
  finally have "(1 - u) ^ N * (1 + u) ^ N \<le> 1" .
  then have "(1 - u) ^ N \<le> 1 / (1 + u) ^ N"
    using u by (simp add: pos_le_divide_eq)
  then have "(1 - u) * (1 - u) ^ N \<le> (1 - u) * (1 / (1 + u) ^ N)"
    using u by (intro mult_left_mono) simp_all
  then have "(1 - u) ^ Suc N \<le> (1 - u) / (1 + u) ^ N" by simp
  moreover have "1 - (real N + 1) * u \<le> (1 - u) ^ Suc N"
    using b by (simp add: algebra_simps)
  ultimately show ?thesis by linarith
qed

lemma power_bound_hi:
  assumes u: "0 \<le> (u::real)" and n: "real N * u < 1"
  shows "(1 + u) / (1 - u) ^ N \<le> 1 + (real N + 1) * u / (1 - real N * u)"
proof (cases "N = 0")
  case True
  then show ?thesis by simp
next
  case False
  then have "1 \<le> real N" by simp
  then have "1 * u \<le> real N * u" using u by (intro mult_right_mono) simp_all
  then have "u \<le> real N * u" by simp
  then have u1: "u < 1" using n by linarith
  have b: "1 + real N * (- u) \<le> (1 + (- u)) ^ N"
    using u1 by (intro Bernoulli_inequality) simp
  have d: "0 < 1 - real N * u" using n by simp
  have "1 - real N * u \<le> (1 - u) ^ N" using b by simp
  then have "1 / (1 - u) ^ N \<le> 1 / (1 - real N * u)"
    using d by (simp add: frac_le)
  then have "(1 + u) * (1 / (1 - u) ^ N) \<le> (1 + u) * (1 / (1 - real N * u))"
    using u by (intro mult_left_mono) simp_all
  moreover have "(1 + u) * (1 / (1 - real N * u)) = 1 + (real N + 1) * u / (1 - real N * u)"
    using d by (simp add: field_simps)
  ultimately show ?thesis by simp
qed

lemma weights_sum_tolerance:
  assumes H: "\<forall>x. \<bar>rnd x - x\<bar> \<le> u * \<bar>x\<bar>" and u: "0 \<le> u" and n: "real (length mp) * u < 1"
    and d: "distinct (map fst mp)" and fin: "all_finite mp"
    and nn: "nonneg_means mp" and pos: "some_positive_mean mp"
  shows "weights_finite_values (create_ensemble_model_r rnd mp [])
       \<and> \<bar>weight_sum (create_ensemble_model_r rnd mp []) - 1\<bar>
            \<le> (real (length mp) + 1) * u / (1 - real (length mp) * u)"
proof -
  let ?N = "length mp" and ?S = "weight_sum (create_ensemble_model_r rnd mp [])"
  have ne: "mp \<noteq> []" using pos by (auto simp: some_positive_mean_def)
  then have "1 \<le> real ?N" by (cases mp) simp_all
  then have "1 * u \<le> real ?N * u" using u by (intro mult_right_mono) simp_all
  then have "u \<le> real ?N * u" by simp
  then have u1: "u < 1" using n by linarith
  have bnd: "weights_finite_values (create_ensemble_model_r rnd mp [])"
     "(1 - u) / (1 + u) ^ ?N \<le> ?S" "?S \<le> (1 + u) / (1 - u) ^ ?N"
    using rounded_weights_sum_bounds[OF H u u1 d fin nn pos] by simp_all
  have dpos: "0 < 1 - real ?N * u" using n by simp
  have dle: "1 - real ?N * u \<le> 1" using u by simp
  have e0: "0 \<le> (real ?N + 1) * u" using u by simp
  have "(real ?N + 1) * u / 1 \<le> (real ?N + 1) * u / (1 - real ?N * u)"
    using e0 dpos dle by (intro divide_left_mono) simp_all
  then have lo: "1 - (real ?N + 1) * u / (1 - real ?N * u) \<le> ?S"
    using power_bound_lo[OF u u1, of ?N] bnd(2) by simp
  have hi: "?S \<le> 1 + (real ?N + 1) * u / (1 - real ?N * u)"
    using power_bound_hi[OF u n] bnd(3) by linarith
  show ?thesis using bnd(1) lo hi by (simp add: abs_le_iff)
qed

lemma double_precision_tolerance:
  assumes H: "\<forall>x. \<bar>rnd x - x\<bar> \<le> unit_roundoff * \<bar>x\<bar>" and n: "length mp \<le> 5"
    and d: "distinct (map fst mp)" and fin: "all_finite mp"
    and nn: "nonneg_means mp" and pos: "some_positive_mean mp"
  shows "\<bar>weight_sum (create_ensemble_model_r rnd mp []) - 1\<bar> \<le> 1 / 10 ^ 6"
proof -
  let ?n = "real (length mp)"
  have n5: "?n \<le> 5" using n by simp
  have u0: "0 \<le> unit_roundoff" by (simp add: unit_roundoff_def)
  have us: "unit_roundoff \<le> 1 / 10 ^ 8" by (simp add: unit_roundoff_def)
  have nu: "?n * unit_roundoff \<le> 5 * (1 / 10 ^ 8)"
    using n5 us u0 by (intro mult_mono) simp_all
  then have n1: "?n * unit_roundoff < 1" by simp
  have b: "\<bar>weight_sum (create_ensemble_model_r rnd mp []) - 1\<bar>
            \<le> (?n + 1) * unit_roundoff / (1 - ?n * unit_roundoff)"
    using weights_sum_tolerance[OF H u0 n1 d fin nn pos] by simp
  have num: "(?n + 1) * unit_roundoff \<le> 6 * (1 / 10 ^ 8)"
    using n5 us u0 by (intro mult_mono) simp_all
  have den: "1 / 2 \<le> 1 - ?n * unit_roundoff" using nu by simp
  have "(?n + 1) * unit_roundoff / (1 - ?n * unit_roundoff) \<le> (6 * (1 / 10 ^ 8)) / (1 / 2)"
    using num den by (intro frac_le) simp_all
  also have "\<dots> \<le> 1 / 10 ^ 6" by simp
  finally show ?thesis using b by linarith
qed

text \<open>
  Claim C4, as the code has it. For candidates whose cross-validated means are finite and
  not negative, at least one of them strictly positive, the weights sum to 1 within
  floating tolerance: when every arithmetic operation has a relative rounding error of at
  most \<open>u\<close> and \<open>N * u < 1\<close> for the \<open>N\<close> candidates, every stored weight is finite and
  their sum differs from 1 by at most \<open>(N + 1) * u / (1 - N * u)\<close>. For binary64 and up to
  five candidates that is below \<open>1e-6\<close> (\<open>double_precision_tolerance\<close>).
\<close>

theorem rounded_weights_sum_near_one:
  assumes "\<forall>x. \<bar>rnd x - x\<bar> \<le> u * \<bar>x\<bar>" and "0 \<le> u" and "real (length mp) * u < 1"
    and "distinct (map fst mp)" and "all_finite mp"
    and "nonneg_means mp" and "some_positive_mean mp"
  shows "weights_finite_values (create_ensemble_model_r rnd mp [])
       \<and> \<bar>weight_sum (create_ensemble_model_r rnd mp []) - 1\<bar>
            \<le> (real (length mp) + 1) * u / (1 - real (length mp) * u)"
  using assms by (rule weights_sum_tolerance)

theorem rounded_weights_sum_near_one_witness:
  "(\<forall>x. \<bar>demo_rounding x - x\<bar> \<le> unit_roundoff * \<bar>x\<bar>)
   \<and> 0 \<le> unit_roundoff \<and> real (length demo_candidates) * unit_roundoff < 1
   \<and> distinct (map fst demo_candidates) \<and> all_finite demo_candidates
   \<and> nonneg_means demo_candidates \<and> some_positive_mean demo_candidates
   \<and> weights_finite_values (create_ensemble_model_r demo_rounding demo_candidates [])
   \<and> \<bar>weight_sum (create_ensemble_model_r demo_rounding demo_candidates []) - 1\<bar>
        \<le> (real (length demo_candidates) + 1) * unit_roundoff
             / (1 - real (length demo_candidates) * unit_roundoff)"
proof -
  have u0: "0 \<le> unit_roundoff" by (simp add: unit_roundoff_def)
  have H: "\<forall>x. \<bar>demo_rounding x - x\<bar> \<le> unit_roundoff * \<bar>x\<bar>"
  proof
    fix x
    have "demo_rounding x - x = unit_roundoff * x"
      by (simp add: demo_rounding_def algebra_simps)
    then show "\<bar>demo_rounding x - x\<bar> \<le> unit_roundoff * \<bar>x\<bar>"
      using u0 by (simp add: abs_mult)
  qed
  have n: "real (length demo_candidates) * unit_roundoff < 1"
    by (simp add: demo_candidates_def unit_roundoff_def)
  have d: "distinct (map fst demo_candidates)" by (simp add: demo_candidates_def)
  have f: "all_finite demo_candidates" by (simp add: demo_candidates_def all_finite_def cand_def)
  have nn: "nonneg_means demo_candidates"
    by (simp add: demo_candidates_def nonneg_means_def cv_real_def cand_def)
  have ps: "some_positive_mean demo_candidates"
    by (simp add: demo_candidates_def some_positive_mean_def cv_real_def cand_def)
  show ?thesis
    using rounded_weights_sum_near_one[OF H u0 n d f nn ps] H u0 n d f nn ps by blast
qed

text \<open>
  Claim C4 as the specification states it fails: with means 0.5 and -0.5 one candidate is
  strictly positive, the total is 0, the weights are the two infinities and their sum is
  NaN. Every value here is exact in binary64, so no rounding takes part.
\<close>

theorem positive_candidate_sum_counterexample:
  "flt (Fin 0) (cv_mean (cand (1/2)))
   \<and> py_sum (map snd (create_ensemble_model [(''a'', cand (1/2)), (''b'', cand (- 1/2))] [])) = NaN"
  by (simp add: create_ensemble_model_def total_cv_score_def py_sum_def cand_def)

section \<open>Properties of the criteria check\<close>

lemma andthen_simps [simp]:
  "andthen (Inl e, s) f = (Inl e, s)" "andthen (Inr a, s) f = f a s"
  by (simp_all add: andthen_def)

lemma pure_then_simps [simp]:
  "pure_then (Inl e) g = Inl e" "pure_then (Inr a) g = g a"
  by (simp_all add: pure_then_def)

lemma touches_only_refl [simp]: "touches_only T w w"
  by (simp add: touches_only_def)

lemma touches_only_trans:
  "touches_only T w w1 \<Longrightarrow> touches_only T w1 w2 \<Longrightarrow> touches_only T w w2"
  by (simp add: touches_only_def)

lemma touches_only_mono:
  "touches_only T w w' \<Longrightarrow> (\<And>p. T p \<Longrightarrow> U p) \<Longrightarrow> touches_only U w w'"
  by (auto simp: touches_only_def)

lemma touches_onlyD: "touches_only T w w' \<Longrightarrow> \<not> T p \<Longrightarrow> files w' p = files w p"
  by (simp add: touches_only_def)

lemma touches_only_ticks [simp]: "touches_only T w (w'\<lparr>ticks := k\<rparr>) = touches_only T w w'"
  "touches_only T (w\<lparr>ticks := k\<rparr>) w' = touches_only T w w'"
  by (simp_all add: touches_only_def)

lemma touches_only_db [simp]: "touches_only T w (w'\<lparr>db := d\<rparr>) = touches_only T w w'"
  by (simp_all add: touches_only_def)

lemma andthen_touches:
  assumes "touches_only T w (snd r)"
    and "\<And>a s. r = (Inr a, s) \<Longrightarrow> touches_only T s (snd (f a s))"
  shows "touches_only T w (snd (andthen r f))"
proof (cases r)
  case (Pair x s)
  show ?thesis
  proof (cases x)
    case (Inl e) with Pair assms(1) show ?thesis by simp
  next
    case (Inr a)
    with Pair assms(1) assms(2)[of a s] show ?thesis
      by (auto intro: touches_only_trans)
  qed
qed

lemma write_file_touches: "touches_only (\<lambda>p. p = q) w (snd (write_file env q c w))"
  by (simp add: write_file_def touches_only_def)

lemma os_remove_touches: "touches_only (\<lambda>p. p = q) w (snd (os_remove env q w))"
  by (simp add: os_remove_def touches_only_def split: option.splits)

lemma os_rename_touches: "touches_only (\<lambda>p. p = a \<or> p = b) w (snd (os_rename env a b w))"
  by (simp add: os_rename_def touches_only_def split: option.splits)

lemma now_files [simp]: "files (snd (now env w)) = files w" "db (snd (now env w)) = db w"
  by (simp_all add: now_def)

lemma export_touches: "touches_only (\<lambda>p. p = out) w (snd (export_data_for_ml env out w))"
  unfolding export_data_for_ml_def
  by (auto split: sum.splits intro!: andthen_touches write_file_touches)

lemma evaluate_body_touches: "touches_only (\<lambda>p. p = temp_eval_path) w (snd (evaluate_body env w))"
  unfolding evaluate_body_def Let_def
  by (auto split: sum.splits intro!: andthen_touches export_touches os_remove_touches)

lemma evaluate_snd: "snd (evaluate_current_model env w) = snd (evaluate_body env w)"
  by (simp add: evaluate_current_model_def split: prod.splits sum.splits)

lemma evaluate_touches: "touches_only (\<lambda>p. p = temp_eval_path) w (snd (evaluate_current_model env w))"
  by (simp add: evaluate_snd evaluate_body_touches)

lemma write_file_db [simp]: "db (snd (write_file env q c w)) = db w"
  "ticks (snd (write_file env q c w)) = ticks w"
  by (simp_all add: write_file_def)

lemma os_remove_db [simp]: "db (snd (os_remove env q w)) = db w"
  "ticks (snd (os_remove env q w)) = ticks w"
  by (simp_all add: os_remove_def split: option.splits)

lemma os_rename_db [simp]: "db (snd (os_rename env a b w)) = db w"
  "ticks (snd (os_rename env a b w)) = ticks w"
  by (simp_all add: os_rename_def split: option.splits)

lemma export_db [simp]: "db (snd (export_data_for_ml env out w)) = db w"
  by (simp add: export_data_for_ml_def write_file_def andthen_def split: sum.splits)

lemma evaluate_body_ticks:
  "evaluate_body env (w\<lparr>ticks := k\<rparr>)
     = (fst (evaluate_body env w), (snd (evaluate_body env w))\<lparr>ticks := k\<rparr>)"
  by (simp add: evaluate_body_def export_data_for_ml_def write_file_def os_remove_def
        read_file_def path_exists_def andthen_def pure_then_def Let_def
      split: sum.splits option.splits)

lemma evaluate_ticks:
  "evaluate_current_model env (w\<lparr>ticks := k\<rparr>)
     = (fst (evaluate_current_model env w), (snd (evaluate_current_model env w))\<lparr>ticks := k\<rparr>)"
  by (simp add: evaluate_current_model_def evaluate_body_ticks split: prod.splits sum.splits)

lemma evaluate_body_db [simp]: "db (snd (evaluate_body env w)) = db w"
  by (simp add: evaluate_body_def export_data_for_ml_def write_file_def os_remove_def
        read_file_def path_exists_def andthen_def pure_then_def Let_def
      split: sum.splits option.splits)

lemma evaluate_db [simp]: "db (snd (evaluate_current_model env w)) = db w"
  by (simp add: evaluate_snd)

lemma count_ticks [simp]:
  "count_new_data_points env d (w\<lparr>ticks := k\<rparr>) = count_new_data_points env d w"
  by (simp add: count_new_data_points_def split: option.splits)

lemma get_last_ticks [simp]:
  "get_last_training_date env (w\<lparr>ticks := k\<rparr>) = get_last_training_date env w"
  by (simp add: get_last_training_date_def path_exists_def read_file_def)

lemma check_schedule_snd:
  "snd (check_schedule self env d c w) = (case d of None \<Rightarrow> w | Some x \<Rightarrow> w\<lparr>ticks := Suc (ticks w)\<rparr>)"
  by (simp add: check_schedule_def now_def Let_def split: option.splits)

lemma check_snd:
  "snd (check_retraining_criteria self env w) =
     (let w1 = (case get_last_training_date env w of None \<Rightarrow> w | Some d \<Rightarrow> w\<lparr>ticks := Suc (ticks w)\<rparr>)
      in case count_new_data_points env (get_last_training_date env w) w of
           Inl e \<Rightarrow> w1
         | Inr n \<Rightarrow> snd (evaluate_current_model env w1))"
  apply (simp add: check_retraining_criteria_def Let_def split: prod.splits sum.splits)
  apply (auto simp: check_schedule_def now_def Let_def split: option.splits)
  done

lemma check_db: "db (snd (check_retraining_criteria self env w)) = db w"
  by (simp add: check_snd Let_def split: sum.splits option.splits)

lemma check_touches:
  "touches_only (\<lambda>p. p = temp_eval_path) w (snd (check_retraining_criteria self env w))"
proof -
  have "touches_only (\<lambda>p. p = temp_eval_path) (w\<lparr>ticks := k\<rparr>) (snd (evaluate_current_model env (w\<lparr>ticks := k\<rparr>)))" for k
    by (rule evaluate_touches)
  then have a: "touches_only (\<lambda>p. p = temp_eval_path) w (snd (evaluate_current_model env (w\<lparr>ticks := k\<rparr>)))" for k
    by simp
  show ?thesis
    using a evaluate_touches[of w env]
    by (simp add: check_snd Let_def split: sum.splits option.splits)
qed

lemma evaluate_body_no_model:
  "files w production_path = None \<Longrightarrow> evaluate_body env w = (Inr None, w)"
  by (simp add: evaluate_body_def path_exists_def)

lemma check_no_model_files:
  assumes "files w production_path = None"
  shows "files (snd (check_retraining_criteria self env w)) = files w"
proof -
  have "files (w\<lparr>ticks := k\<rparr>) production_path = None" for k using assms by simp
  then have "evaluate_body env (w\<lparr>ticks := k\<rparr>) = (Inr None, w\<lparr>ticks := k\<rparr>)" for k
    by (rule evaluate_body_no_model)
  then show ?thesis
    using evaluate_body_no_model[OF assms, of env]
    by (simp add: check_snd Let_def evaluate_snd
             split: sum.splits option.splits)
qed

lemma evaluate_body_score_removes_temp:
  "fst (evaluate_body env w) = Inr (Some x) \<Longrightarrow> files (snd (evaluate_body env w)) temp_eval_path = None"
  by (auto simp: evaluate_body_def export_data_for_ml_def write_file_def os_remove_def
        read_file_def path_exists_def andthen_def pure_then_def Let_def
      split: sum.splits option.splits if_splits)

lemma evaluate_fst:
  "fst (evaluate_current_model env w) = (case fst (evaluate_body env w) of Inl e \<Rightarrow> None | Inr r \<Rightarrow> r)"
  by (simp add: evaluate_current_model_def split: prod.splits sum.splits)

lemma evaluate_score_removes_temp:
  "fst (evaluate_current_model env w) = Some x \<Longrightarrow> files (snd (evaluate_current_model env w)) temp_eval_path = None"
  by (auto simp: evaluate_fst evaluate_snd split: sum.splits intro: evaluate_body_score_removes_temp)

lemma check_schedule_perf [simp]:
  "current_performance (fst (check_schedule self env d c w)) = current_performance c"
  by (simp add: check_schedule_def now_def add_reason_def Let_def split: option.splits)

text \<open>The criteria, with the clock reading taken out of the evaluation.\<close>

lemma check_fst:
  "fst (check_retraining_criteria self env w) =
     (let c0 = \<lparr>needs_retraining = False, reasons = [], new_data_points = 0,
                days_since_last_training = 0, current_performance = None\<rparr>;
          last_date = get_last_training_date env w;
          c1 = fst (check_schedule self env last_date c0 w)
      in case count_new_data_points env last_date w of
           Inl e \<Rightarrow> add_reason (CriteriaError e) c1
         | Inr n \<Rightarrow>
             let c2 = c1\<lparr>new_data_points := n\<rparr>;
                 c3 = (if min_new_data_points self \<le> n
                       then add_reason (SufficientNewData n) c2 else c2);
                 cp = fst (evaluate_current_model env w);
                 c4 = c3\<lparr>current_performance := cp\<rparr>
             in (case cp of
                   Some x \<Rightarrow> if performance_degraded self cp
                             then add_reason (PerformanceDegraded x) c4 else c4
                 | None \<Rightarrow> c4))"
  by (auto simp: check_retraining_criteria_def Let_def check_schedule_def now_def evaluate_ticks
       split: prod.splits sum.splits option.splits)

lemma check_perf:
  "current_performance (fst (check_retraining_criteria self env w)) =
     (case count_new_data_points env (get_last_training_date env w) w of
        Inl e \<Rightarrow> None | Inr n \<Rightarrow> fst (evaluate_current_model env w))"
  by (simp add: check_fst Let_def add_reason_def split: sum.splits option.splits)

lemma check_score_removes_temp:
  assumes "current_performance (fst (check_retraining_criteria self env w)) \<noteq> None"
  shows "files (snd (check_retraining_criteria self env w)) temp_eval_path = None"
proof -
  from assms obtain n x where n: "count_new_data_points env (get_last_training_date env w) w = Inr n"
    and x: "fst (evaluate_current_model env w) = Some x"
    by (auto simp: check_perf split: sum.splits)
  have "files (snd (evaluate_current_model env w)) temp_eval_path = None"
    using x by (rule evaluate_score_removes_temp)
  then show ?thesis
    using n by (simp add: check_snd Let_def evaluate_ticks
                     split: option.splits)
qed

text \<open>
  Claim C8, as the code has it. \<open>check_retraining_criteria\<close> only reads the database and
  changes no file other than \<open>temp_eval_data.csv\<close>, the export that
  \<open>_evaluate_current_model\<close> writes before scoring. When there is no production model no
  file changes at all, and when the evaluation yields a score the export has been removed
  again.
\<close>

theorem criteria_check_file_effects:
  "db (snd (check_retraining_criteria self env w)) = db w
   \<and> (\<forall>p. p \<noteq> temp_eval_path \<longrightarrow> files (snd (check_retraining_criteria self env w)) p = files w p)
   \<and> (files w production_path = None \<longrightarrow> files (snd (check_retraining_criteria self env w)) = files w)
   \<and> (current_performance (fst (check_retraining_criteria self env w)) \<noteq> None
        \<longrightarrow> files (snd (check_retraining_criteria self env w)) temp_eval_path = None)"
  using check_touches[of w self env]
  by (simp add: check_db check_no_model_files check_score_removes_temp touches_only_def)

lemmas demo_defs = demo_env_def demo_world_def demo_table_def demo_system_def demo_log_def

lemmas check_defs = check_retraining_criteria_def check_schedule_def get_last_training_date_def
  count_new_data_points_def evaluate_current_model_def evaluate_body_def export_data_for_ml_def
  prepare_features_def performance_degraded_def add_reason_def init_retrainer_def days_between_def

lemmas io_defs = path_exists_def read_file_def write_file_def os_remove_def os_rename_def now_def
  andthen_def pure_then_def

lemmas df_defs = df_empty_def has_column_def get_column_def select_columns_def fillna0_def
  add_column_def add_zero_column_def copy_column_def

lemma check_schedule_reasons:
  "set (reasons (fst (check_schedule self env d c w))) \<subseteq> set (reasons c) \<union> {NoPreviousRecord} \<union> range Scheduled"
  by (auto simp: check_schedule_def now_def add_reason_def Let_def split: option.splits)

text \<open>
  Claim C2, as the code has it, for a check that reaches the evaluation (the row count did
  not raise). \<open>current_performance\<close> is what \<open>_evaluate_current_model\<close> returns. A score that
  is truthy (not 0.0) and strictly below the threshold sets \<open>needs_retraining\<close> and adds the
  degradation reason. When the evaluation yields no score (it returns \<open>None\<close>: the model
  file is missing, or loading, exporting or scoring raised) no degradation reason is added:
  a failed evaluation is not treated as degradation.
\<close>

theorem degradation_flag_follows_score:
  assumes reach: "count_new_data_points env (get_last_training_date env w) w = Inr n"
  shows "current_performance (fst (check_retraining_criteria self env w))
           = fst (evaluate_current_model env w)
    \<and> (\<forall>x. fst (evaluate_current_model env w) = Some x \<and> truthy x \<and> flt x (performance_threshold self)
          \<longrightarrow> needs_retraining (fst (check_retraining_criteria self env w))
              \<and> PerformanceDegraded x \<in> set (reasons (fst (check_retraining_criteria self env w))))
    \<and> (fst (evaluate_current_model env w) = None
          \<longrightarrow> (\<forall>x. PerformanceDegraded x \<notin> set (reasons (fst (check_retraining_criteria self env w)))))
    \<and> (files w production_path = None \<or> (\<exists>e. fst (evaluate_body env w) = Inl e)
          \<longrightarrow> fst (evaluate_current_model env w) = None)"
proof -
  let ?init = "\<lparr>needs_retraining = False, reasons = [], new_data_points = 0,
                days_since_last_training = 0, current_performance = None\<rparr>"
  have r: "\<And>x. PerformanceDegraded x \<notin> set (reasons (fst (check_schedule self env (get_last_training_date env w) ?init w)))"
    using check_schedule_reasons[of self env "get_last_training_date env w" ?init w] by auto
  have 1: "current_performance (fst (check_retraining_criteria self env w)) = fst (evaluate_current_model env w)"
    using reach by (simp add: check_perf)
  have 2: "needs_retraining (fst (check_retraining_criteria self env w))
              \<and> PerformanceDegraded x \<in> set (reasons (fst (check_retraining_criteria self env w)))"
    if "fst (evaluate_current_model env w) = Some x" "truthy x" "flt x (performance_threshold self)" for x
    using reach that by (simp add: check_fst Let_def performance_degraded_def add_reason_def)
  have 3: "PerformanceDegraded x \<notin> set (reasons (fst (check_retraining_criteria self env w)))"
    if "fst (evaluate_current_model env w) = None" for x
    using reach that r[of x] by (simp add: check_fst Let_def add_reason_def)
  have 4: "fst (evaluate_current_model env w) = None"
    if "files w production_path = None \<or> (\<exists>e. fst (evaluate_body env w) = Inl e)"
    using that by (auto simp: evaluate_fst evaluate_body_no_model)
  show ?thesis using 1 2 3 4 by blast
qed

theorem degradation_flag_follows_score_witness:
  "count_new_data_points (demo_env (9/10))
      (get_last_training_date (demo_env (9/10)) (demo_world (Some (Pickle (demo_system (1/2)))) None))
      (demo_world (Some (Pickle (demo_system (1/2)))) None) = Inr 2
   \<and> fst (evaluate_current_model (demo_env (9/10)) (demo_world (Some (Pickle (demo_system (1/2)))) None))
       = Some (Fin (1/2))
   \<and> truthy (Fin (1/2)) \<and> flt (Fin (1/2)) (performance_threshold init_retrainer)
   \<and> needs_retraining (fst (check_retraining_criteria init_retrainer (demo_env (9/10))
         (demo_world (Some (Pickle (demo_system (1/2)))) None)))
   \<and> PerformanceDegraded (Fin (1/2)) \<in> set (reasons (fst (check_retraining_criteria init_retrainer
         (demo_env (9/10)) (demo_world (Some (Pickle (demo_system (1/2)))) None))))"
proof -
  let ?E = "demo_env (9/10)" and ?W = "demo_world (Some (Pickle (demo_system (1/2)))) None"
  have h: "count_new_data_points ?E (get_last_training_date ?E ?W) ?W = Inr 2"
    by (simp add: count_new_data_points_def get_last_training_date_def io_defs demo_defs)
  have e: "fst (evaluate_current_model ?E ?W) = Some (Fin (1/2))"
    by (simp add: check_defs io_defs df_defs demo_defs)
  have t: "truthy (Fin (1/2)) \<and> flt (Fin (1/2)) (performance_threshold init_retrainer)"
    by (simp add: init_retrainer_def)
  show ?thesis
    using degradation_flag_follows_score[OF h, of init_retrainer] h e t by simp
qed

text \<open>
  Claim C2 as the specification states it fails: with a production file that cannot be
  unpickled, a log three days old and no new rows, the evaluation raises, and the criteria
  come back with \<open>needs_retraining\<close> false and no reason.
\<close>

theorem unloadable_model_not_flagged_counterexample:
  "fst (evaluate_body (demo_env (9/10)) (demo_world (Some Garbage) (Some (TrainingLog demo_log))))
     = Inl UnpicklingError
   \<and> fst (check_retraining_criteria init_retrainer (demo_env (9/10))
            (demo_world (Some Garbage) (Some (TrainingLog demo_log))))
     = \<lparr>needs_retraining = False, reasons = [], new_data_points = 0,
        days_since_last_training = 3, current_performance = None\<rparr>"
  by (simp add: check_defs io_defs df_defs demo_defs)

text \<open>
  Claim C7, as the code has it. No I/O error leaves \<open>check_retraining_criteria\<close>: it always
  returns criteria. A log that exists but cannot be read or parsed counts as no log, which
  sets \<open>needs_retraining\<close> with the reason "no previous training record". An error of the
  row count when no date is known is caught by the outer handler, which adds the error as a
  reason. An error of the row count when a date is known is swallowed as a count of 0: the
  criteria are those of a run whose count query returned 0, and no error reason is added.
\<close>

theorem criteria_io_errors_are_caught:
  "(path_exists w training_log_path
      \<and> (\<exists>e. pure_then (read_file env training_log_path w) json_load_log = Inl e)
      \<longrightarrow> get_last_training_date env w = None)
   \<and> (get_last_training_date env w = None
      \<longrightarrow> needs_retraining (fst (check_retraining_criteria self env w))
          \<and> NoPreviousRecord \<in> set (reasons (fst (check_retraining_criteria self env w))))
   \<and> (\<forall>e. get_last_training_date env w = None \<and> get_equipment_data env (db w) = Inl e
      \<longrightarrow> CriteriaError e \<in> set (reasons (fst (check_retraining_criteria self env w))))
   \<and> (\<forall>d e. get_last_training_date env w = Some d \<and> count_readings_since env (db w) d = Inl e
      \<longrightarrow> new_data_points (fst (check_retraining_criteria self env w)) = 0
          \<and> (\<forall>e'. CriteriaError e' \<notin> set (reasons (fst (check_retraining_criteria self env w))))
          \<and> fst (check_retraining_criteria self env w)
              = fst (check_retraining_criteria self (env\<lparr>count_readings_since := \<lambda>db since. Inr 0\<rparr>) w))"
proof -
  let ?c = "fst (check_retraining_criteria self env w)"
  have 1: "get_last_training_date env w = None"
    if "path_exists w training_log_path"
       "\<exists>e. pure_then (read_file env training_log_path w) json_load_log = Inl e"
    using that by (auto simp: get_last_training_date_def)
  have 2: "needs_retraining ?c \<and> NoPreviousRecord \<in> set (reasons ?c)"
    if "get_last_training_date env w = None"
    using that
    by (simp add: check_fst Let_def check_schedule_def add_reason_def performance_degraded_def
             split: sum.splits option.splits)
  have 3: "CriteriaError e \<in> set (reasons ?c)"
    if "get_last_training_date env w = None" "get_equipment_data env (db w) = Inl e" for e
    using that
    by (simp add: check_fst Let_def count_new_data_points_def add_reason_def)
  have ex: "export_data_for_ml (env\<lparr>count_readings_since := f\<rparr>) = export_data_for_ml env" for f
    by (simp add: fun_eq_iff export_data_for_ml_def write_file_def split: sum.splits)
  have rm: "os_remove (env\<lparr>count_readings_since := f\<rparr>) = os_remove env" for f
    by (simp add: fun_eq_iff os_remove_def)
  have rf: "read_file (env\<lparr>count_readings_since := f\<rparr>) = read_file env" for f
    by (simp add: fun_eq_iff read_file_def)
  have ev: "evaluate_current_model (env\<lparr>count_readings_since := f\<rparr>) w = evaluate_current_model env w" for f
    by (simp add: evaluate_current_model_def evaluate_body_def ex rm rf
             cong: sum.case_cong if_cong)
  have gl: "get_last_training_date (env\<lparr>count_readings_since := f\<rparr>) w = get_last_training_date env w" for f
    by (simp add: get_last_training_date_def io_defs)
  have cs: "check_schedule self (env\<lparr>count_readings_since := f\<rparr>) d c w = check_schedule self env d c w" for f d c
    by (simp add: check_schedule_def now_def split: option.splits)
  have 4: "new_data_points ?c = 0 \<and> (\<forall>e'. CriteriaError e' \<notin> set (reasons ?c))
           \<and> ?c = fst (check_retraining_criteria self (env\<lparr>count_readings_since := \<lambda>db since. Inr 0\<rparr>) w)"
    if d: "get_last_training_date env w = Some d" and e: "count_readings_since env (db w) d = Inl e" for d e
  proof -
    let ?init = "\<lparr>needs_retraining = False, reasons = [], new_data_points = 0,
                days_since_last_training = 0, current_performance = None\<rparr>"
    have r: "\<And>x. CriteriaError x \<notin> set (reasons (fst (check_schedule self env (Some d) ?init w)))"
      using check_schedule_reasons[of self env "Some d" ?init w] by auto
    have n: "new_data_points (fst (check_schedule self env (Some d) ?init w)) = 0"
      by (simp add: check_schedule_def now_def add_reason_def Let_def)
    have a: "new_data_points ?c = 0"
      using d e n
      by (simp add: check_fst Let_def count_new_data_points_def add_reason_def split: option.splits)
    have b: "CriteriaError e' \<notin> set (reasons ?c)" for e'
      using d e r[of e']
      by (simp add: check_fst Let_def count_new_data_points_def add_reason_def split: option.splits)
    have c: "?c = fst (check_retraining_criteria self (env\<lparr>count_readings_since := \<lambda>db since. Inr 0\<rparr>) w)"
      using d e by (simp add: check_fst ev gl cs count_new_data_points_def)
    show ?thesis using a b c by blast
  qed
  show ?thesis using 1 2 3 4 by blast
qed

lemmas demo_defs2 = demo_defs failing_count_env_def failing_equipment_env_def empty_export_env_def

text \<open>
  Claim C7 as the specification states it fails: with a log three days old, a count query
  that raises and a production model scoring 0.85, the criteria come back with
  \<open>needs_retraining\<close> false and no reason.
\<close>

theorem count_error_not_retrained_counterexample:
  "get_last_training_date failing_count_env
      (demo_world (Some (Pickle (demo_system (85/100)))) (Some (TrainingLog demo_log))) = Some 0
   \<and> count_readings_since failing_count_env () 0 = Inl DatabaseError
   \<and> fst (check_retraining_criteria init_retrainer failing_count_env
            (demo_world (Some (Pickle (demo_system (85/100)))) (Some (TrainingLog demo_log))))
     = \<lparr>needs_retraining = False, reasons = [], new_data_points = 0,
        days_since_last_training = 3, current_performance = Some (Fin (85/100))\<rparr>"
  by (simp add: check_defs io_defs df_defs demo_defs2)

theorem criteria_io_errors_are_caught_witness:
  "path_exists (demo_world None (Some Garbage)) training_log_path
   \<and> pure_then (read_file failing_equipment_env training_log_path (demo_world None (Some Garbage)))
        json_load_log = Inl ParserError
   \<and> get_last_training_date failing_equipment_env (demo_world None (Some Garbage)) = None
   \<and> get_equipment_data failing_equipment_env (db (demo_world None (Some Garbage))) = Inl DatabaseError
   \<and> needs_retraining (fst (check_retraining_criteria init_retrainer failing_equipment_env
         (demo_world None (Some Garbage))))
   \<and> NoPreviousRecord \<in> set (reasons (fst (check_retraining_criteria init_retrainer
         failing_equipment_env (demo_world None (Some Garbage)))))
   \<and> CriteriaError DatabaseError \<in> set (reasons (fst (check_retraining_criteria init_retrainer
         failing_equipment_env (demo_world None (Some Garbage)))))
   \<and> get_last_training_date failing_count_env (demo_world None (Some (TrainingLog demo_log))) = Some 0
   \<and> count_readings_since failing_count_env (db (demo_world None (Some (TrainingLog demo_log)))) 0
       = Inl DatabaseError
   \<and> new_data_points (fst (check_retraining_criteria init_retrainer failing_count_env
         (demo_world None (Some (TrainingLog demo_log))))) = 0
   \<and> (\<forall>e. CriteriaError e \<notin> set (reasons (fst (check_retraining_criteria init_retrainer
         failing_count_env (demo_world None (Some (TrainingLog demo_log)))))))"
proof -
  let ?W1 = "demo_world None (Some Garbage)"
  let ?W2 = "demo_world None (Some (TrainingLog demo_log))"
  have a: "path_exists ?W1 training_log_path"
    by (simp add: io_defs demo_defs2)
  have b: "pure_then (read_file failing_equipment_env training_log_path ?W1) json_load_log = Inl ParserError"
    by (simp add: io_defs demo_defs2)
  have c: "get_equipment_data failing_equipment_env (db ?W1) = Inl DatabaseError"
    by (simp add: demo_defs2)
  have d: "get_last_training_date failing_count_env ?W2 = Some 0"
    by (simp add: get_last_training_date_def io_defs demo_defs2)
  have e: "count_readings_since failing_count_env (db ?W2) 0 = Inl DatabaseError"
    by (simp add: demo_defs2)
  show ?thesis
    using criteria_io_errors_are_caught[of ?W1 failing_equipment_env init_retrainer]
          criteria_io_errors_are_caught[of ?W2 failing_count_env init_retrainer]
          a b c d e
    by auto
qed

theorem criteria_check_file_effects_witness:
  "db (snd (check_retraining_criteria init_retrainer (demo_env (9/10))
         (demo_world (Some (Pickle (demo_system (85/100)))) None))) = ()
   \<and> files (snd (check_retraining_criteria init_retrainer (demo_env (9/10))
         (demo_world (Some (Pickle (demo_system (85/100)))) None))) production_path
       = Some (Pickle (demo_system (85/100)))
   \<and> current_performance (fst (check_retraining_criteria init_retrainer (demo_env (9/10))
         (demo_world (Some (Pickle (demo_system (85/100)))) None))) \<noteq> None
   \<and> files (snd (check_retraining_criteria init_retrainer (demo_env (9/10))
         (demo_world (Some (Pickle (demo_system (85/100)))) None))) temp_eval_path = None
   \<and> files (demo_world None None) production_path = None
   \<and> files (snd (check_retraining_criteria init_retrainer (demo_env (9/10)) (demo_world None None)))
       = files (demo_world None None)"
proof -
  let ?E = "demo_env (9/10)"
  let ?W1 = "demo_world (Some (Pickle (demo_system (85/100)))) None"
  let ?W2 = "demo_world None None"
  have a: "current_performance (fst (check_retraining_criteria init_retrainer ?E ?W1)) = Some (Fin (85/100))"
    by (simp add: check_defs io_defs df_defs demo_defs2)
  have b: "files ?W2 production_path = None" by (simp add: demo_defs2)
  have c: "files ?W1 production_path = Some (Pickle (demo_system (85/100)))" by (simp add: demo_defs2)
  show ?thesis
    using criteria_check_file_effects[of init_retrainer ?E ?W1]
          criteria_check_file_effects[of init_retrainer ?E ?W2] a b c
    by simp
qed

text \<open>
  Claim C8 as the specification states it fails: with a loadable production model and an
  empty export, the check returns leaving \<open>temp_eval_data.csv\<close>, which did not exist
  before.
\<close>

theorem criteria_check_leaves_temp_file_counterexample:
  "files (demo_world (Some (Pickle (demo_system (85/100)))) None) temp_eval_path = None
   \<and> files (snd (check_retraining_criteria init_retrainer empty_export_env
         (demo_world (Some (Pickle (demo_system (85/100)))) None))) temp_eval_path = Some (Csv [])"
  by (simp add: check_defs io_defs df_defs demo_defs2)

section \<open>Properties of the retraining run\<close>

lemmas path_defs = is_backup_path_def is_retrained_path_def is_report_path_def
  retrained_filename_def backup_name_def report_filename_def

lemma path_facts [simp]:
  "is_backup_path (backup_name s)" "is_retrained_path (retrained_filename s)"
  "is_report_path (report_filename s)"
  "\<not> is_backup_path (retrained_filename s)" "\<not> is_backup_path (report_filename s)"
  "\<not> is_report_path (retrained_filename s)" "\<not> is_report_path (backup_name s)"
  "\<not> is_retrained_path (backup_name s)" "\<not> is_retrained_path (report_filename s)"
  "\<not> is_backup_path production_path" "\<not> is_backup_path temp_eval_path"
  "\<not> is_backup_path retraining_data_path" "\<not> is_backup_path training_log_path"
  "\<not> is_report_path production_path" "\<not> is_report_path temp_eval_path"
  "\<not> is_report_path retraining_data_path" "\<not> is_report_path training_log_path"
  "\<not> is_retrained_path production_path" "\<not> is_retrained_path temp_eval_path"
  "\<not> is_retrained_path retraining_data_path" "\<not> is_retrained_path training_log_path"
  by (simp_all add: path_defs)

lemma ensure_files [simp]: "files (ensure_database_has_data env w) = files w"
  "ticks (ensure_database_has_data env w) = ticks w"
  by (simp_all add: ensure_database_has_data_def import_csv_data_def split: sum.splits)

lemma resolve_touches:
  "touches_only (\<lambda>p. p = retraining_data_path) w (snd (resolve_training_data env w))"
proof -
  have "touches_only (\<lambda>p. p = retraining_data_path) (ensure_database_has_data env w)
          (snd (resolve_training_data env w))"
    unfolding resolve_training_data_def Let_def
    by (auto intro!: andthen_touches export_touches)
  then show ?thesis by (simp add: touches_only_def)
qed

lemma train_and_save_touches:
  "touches_only is_retrained_path w (snd (train_and_save env td w))"
  by (auto simp: train_and_save_def Let_def now_def write_file_def andthen_def touches_only_def
           split: sum.splits prod.splits)

lemma train_and_save_result:
  assumes "train_and_save env td w = (Inr tr, w2)"
  shows "is_retrained_path (saved_as tr) \<and> files w2 (saved_as tr) = Some (Pickle (new_system tr))"
  using assms
  by (auto simp: train_and_save_def Let_def now_def write_file_def andthen_def
           split: sum.splits prod.splits if_splits)

lemma update_log_touches:
  "touches_only (\<lambda>p. p = training_log_path) w (snd (update_training_log env r n w))"
  by (simp add: update_training_log_def Let_def now_def write_file_def touches_only_def)

lemma report_touches:
  "touches_only is_report_path w (snd (generate_retraining_report env ms n r w))"
  by (simp add: generate_retraining_report_def Let_def now_def write_file_def touches_only_def)

lemma clean_up_touches:
  "touches_only (\<lambda>p. p = retraining_data_path) w (snd (clean_up env w))"
  unfolding clean_up_def by (auto intro!: andthen_touches os_remove_touches)

lemma rename_backup_touches:
  "touches_only (\<lambda>p. p = temp_eval_path \<or> p = production_path \<or> is_backup_path p \<or> p = fname) v
     (snd (os_rename env production_path (backup_name s) (v\<lparr>ticks := k\<rparr>)))"
  by (simp add: os_rename_def touches_only_def split: option.splits)

lemma rename_final_touches:
  "touches_only (\<lambda>p. p = temp_eval_path \<or> p = production_path \<or> is_backup_path p \<or> p = fname) v
     (snd (os_rename env fname production_path v))"
  by (simp add: os_rename_def touches_only_def split: option.splits)

lemma promote_touches:
  "touches_only (\<lambda>p. p = temp_eval_path \<or> p = production_path \<or> is_backup_path p \<or> p = fname) w
     (snd (promote_if_better env r fname w))"
proof -
  let ?T = "\<lambda>p. p = temp_eval_path \<or> p = production_path \<or> is_backup_path p \<or> p = fname"
  have ev: "touches_only ?T w (snd (evaluate_current_model env w))"
    by (rule touches_only_mono[OF evaluate_touches]) simp
  have rest: "touches_only ?T v
       (snd (andthen
             (if path_exists v production_path then
                (let (t, w2) = now env v
                 in os_rename env production_path (backup_name (strftime env t)) w2)
              else (Inr (), v))
             (\<lambda>u w3. os_rename env fname production_path w3)))" for v
    apply (rule andthen_touches)
     apply (simp add: now_def Let_def rename_backup_touches)
    apply (rule rename_final_touches)
    done
  show ?thesis
    unfolding promote_if_better_def
    using ev rest[of "snd (evaluate_current_model env w)"]
    by (auto simp: Let_def split: prod.splits intro: touches_only_trans)
qed

lemma retrained_path_distinct:
  assumes "is_retrained_path p"
  shows "p \<noteq> production_path" "p \<noteq> temp_eval_path" "p \<noteq> training_log_path"
    "p \<noteq> retraining_data_path" "\<not> is_backup_path p" "\<not> is_report_path p"
  using assms by (auto simp: path_defs prefix_def)

lemma backup_path_distinct:
  assumes "is_backup_path p"
  shows "p \<noteq> production_path" "p \<noteq> temp_eval_path" "p \<noteq> training_log_path"
    "p \<noteq> retraining_data_path" "\<not> is_retrained_path p" "\<not> is_report_path p"
  using assms by (auto simp: path_defs prefix_def)

lemma report_path_distinct:
  assumes "is_report_path p"
  shows "p \<noteq> production_path" "p \<noteq> temp_eval_path" "p \<noteq> training_log_path"
    "p \<noteq> retraining_data_path" "\<not> is_retrained_path p" "\<not> is_backup_path p"
  using assms by (auto simp: path_defs prefix_def)

lemma retrain_model_snd: "snd (retrain_model env w) = snd (retrain_body env w)"
  by (simp add: retrain_model_def split: prod.splits sum.splits)

lemma retrain_model_fst:
  "fst (retrain_model env w) = (case fst (retrain_body env w) of Inl e \<Rightarrow> False | Inr b \<Rightarrow> b)"
  by (simp add: retrain_model_def split: prod.splits sum.splits)

lemma retrain_body_stopped:
  "candidate_stage env w = Stopped e \<Longrightarrow> fst (retrain_body env w) = Inl e"
  by (auto simp: candidate_stage_def retrain_body_def andthen_def
           split: prod.splits sum.splits if_splits)

lemma retrain_body_no_data:
  "candidate_stage env w = NoData \<or> candidate_stage env w = NoTarget \<Longrightarrow>
   retrain_body env w = (Inr False, snd (resolve_training_data env w))"
  by (auto simp: candidate_stage_def retrain_body_def andthen_def
           split: prod.splits sum.splits if_splits)

lemma retrain_body_candidate:
  "candidate_stage env w = Candidate tr w2 \<Longrightarrow>
   \<exists>n. retrain_body env w =
     andthen (promote_if_better env (test_r2 tr) (saved_as tr) w2) (\<lambda>u w3. record_run env tr n w3)"
  by (auto simp: candidate_stage_def retrain_body_def andthen_def
           split: prod.splits sum.splits if_splits)

lemma candidate_stage_touches:
  assumes "candidate_stage env w = Candidate tr w2"
  shows "touches_only (\<lambda>p. p = retraining_data_path \<or> is_retrained_path p) w w2"
    and "is_retrained_path (saved_as tr)"
    and "files w2 (saved_as tr) = Some (Pickle (new_system tr))"
proof -
  from assms obtain td w1 where r: "resolve_training_data env w = (Inr td, w1)"
    and t: "train_and_save env td w1 = (Inr tr, w2)"
    by (auto simp: candidate_stage_def split: prod.splits sum.splits if_splits)
  have a: "touches_only (\<lambda>p. p = retraining_data_path \<or> is_retrained_path p) w w1"
    using resolve_touches[of w env] r by (auto elim: touches_only_mono)
  have b: "touches_only (\<lambda>p. p = retraining_data_path \<or> is_retrained_path p) w1 w2"
    using train_and_save_touches[of w1 env td] t by (auto elim: touches_only_mono)
  show "touches_only (\<lambda>p. p = retraining_data_path \<or> is_retrained_path p) w w2"
    using a b by (rule touches_only_trans)
  show "is_retrained_path (saved_as tr)" "files w2 (saved_as tr) = Some (Pickle (new_system tr))"
    using train_and_save_result[OF t] by simp_all
qed

lemma record_run_touches:
  "touches_only (\<lambda>p. p = training_log_path \<or> is_report_path p \<or> p = retraining_data_path) w
     (snd (record_run env tr n w))"
  unfolding record_run_def
  by (intro andthen_touches touches_only_mono[OF update_log_touches]
        touches_only_mono[OF report_touches] touches_only_mono[OF clean_up_touches]) auto

lemma promote_not_better:
  "\<not> better_than_current r (fst (evaluate_current_model env w)) \<Longrightarrow>
   promote_if_better env r fname w = (Inr (), snd (evaluate_current_model env w))"
  by (cases "evaluate_current_model env w") (simp add: promote_if_better_def)

text \<open>Every part of a run that does not promote leaves the production path and the backups alone.\<close>

lemma retrain_no_promotion_frame:
  assumes st: "candidate_stage env w = NoData \<or> candidate_stage env w = NoTarget
     \<or> (\<exists>tr w2. candidate_stage env w = Candidate tr w2
           \<and> \<not> better_than_current (test_r2 tr) (fst (evaluate_current_model env w2)))"
    and p: "p = production_path \<or> is_backup_path p"
  shows "files (snd (retrain_body env w)) p = files w p"
proof -
  have p1: "p \<noteq> retraining_data_path \<and> \<not> is_retrained_path p \<and> p \<noteq> temp_eval_path
    \<and> p \<noteq> training_log_path \<and> \<not> is_report_path p"
  proof (cases "p = production_path")
    case True then show ?thesis by simp
  next
    case False
    then have "is_backup_path p" using p by simp
    then show ?thesis by (simp add: backup_path_distinct)
  qed
  from st consider (nd) "candidate_stage env w = NoData \<or> candidate_stage env w = NoTarget"
    | (rej) tr w2 where "candidate_stage env w = Candidate tr w2"
        "\<not> better_than_current (test_r2 tr) (fst (evaluate_current_model env w2))"
    by blast
  then show ?thesis
  proof cases
    case nd
    then show ?thesis
      using touches_onlyD[OF resolve_touches[of w env], of p] p1
      by (simp add: retrain_body_no_data)
  next
    case rej
    obtain n where b: "retrain_body env w =
       andthen (promote_if_better env (test_r2 tr) (saved_as tr) w2) (\<lambda>u w3. record_run env tr n w3)"
      using retrain_body_candidate[OF rej(1)] by blast
    let ?w3 = "snd (evaluate_current_model env w2)"
    have b2: "retrain_body env w = record_run env tr n ?w3"
      by (simp add: b promote_not_better[OF rej(2)])
    have "files w2 p = files w p"
      using touches_onlyD[OF candidate_stage_touches(1)[OF rej(1)], of p] p1 by simp
    moreover have "files ?w3 p = files w2 p"
      using touches_onlyD[OF evaluate_touches[of w2 env], of p] p1 by simp
    moreover have "files (snd (record_run env tr n ?w3)) p = files ?w3 p"
      using touches_onlyD[OF record_run_touches[of ?w3 env tr n], of p] p1 by simp
    ultimately show ?thesis by (simp add: b2)
  qed
qed

lemma evaluate_body_keeps_ticks [simp]: "ticks (snd (evaluate_body env w)) = ticks w"
  by (simp add: evaluate_body_def export_data_for_ml_def write_file_def os_remove_def
        read_file_def path_exists_def andthen_def pure_then_def Let_def
      split: sum.splits option.splits)

lemma evaluate_keeps_ticks [simp]: "ticks (snd (evaluate_current_model env w)) = ticks w"
  by (simp add: evaluate_snd)

lemma pickle_load_Inr: "pickle_load c = Inr ms \<Longrightarrow> c = Pickle ms"
  by (cases c) simp_all

lemma evaluate_score_model_exists:
  assumes "fst (evaluate_current_model env w) = Some x"
  shows "\<exists>ms. files w production_path = Some (Pickle ms)"
proof (cases "files w production_path")
  case None
  then show ?thesis using assms by (simp add: evaluate_fst evaluate_body_no_model)
next
  case (Some c)
  show ?thesis
  proof (cases "pure_then (read_file env production_path w) pickle_load")
    case (Inl e)
    then show ?thesis using assms Some
      by (simp add: evaluate_fst evaluate_body_def path_exists_def)
  next
    case (Inr ms)
    then have "c = Pickle ms" using Some
      by (auto simp: read_file_def pure_then_def split: if_splits dest: pickle_load_Inr)
    then show ?thesis using Some by simp
  qed
qed

lemma promote_better_ok:
  assumes b: "better_than_current r (fst (evaluate_current_model env w))"
    and ok: "fst (promote_if_better env r fname w) = Inr ()"
    and f: "files w fname = Some c" and d: "is_retrained_path fname"
  shows "files (snd (promote_if_better env r fname w)) production_path = Some c
       \<and> files (snd (promote_if_better env r fname w)) fname = None"
proof -
  obtain cp w1 where e: "evaluate_current_model env w = (cp, w1)" by (cases "evaluate_current_model env w")
  have f1: "files w1 fname = Some c"
    using touches_onlyD[OF evaluate_touches[of w env], of fname] e f retrained_path_distinct[OF d] by simp
  have ne: "fname \<noteq> production_path" "\<And>s. fname \<noteq> backup_name s"
    using retrained_path_distinct[OF d] by auto
  show ?thesis
    using b ok e f1 ne
    by (auto simp: promote_if_better_def os_rename_def andthen_def now_def Let_def path_exists_def
             split: if_splits option.splits)
qed

lemma promote_final_rename_fails:
  assumes b: "better_than_current r (fst (evaluate_current_model env w))"
    and ex: "files w production_path = Some old"
    and bk: "\<not> io_fails env (Rename production_path (backup_name (strftime env (time_at env (ticks w)))))"
    and fail: "io_fails env (Rename fname production_path)"
    and d: "is_retrained_path fname"
  shows "fst (promote_if_better env r fname w) = Inl OSError
       \<and> files (snd (promote_if_better env r fname w)) production_path = None
       \<and> files (snd (promote_if_better env r fname w)) (backup_name (strftime env (time_at env (ticks w)))) = Some old
       \<and> files (snd (promote_if_better env r fname w)) fname = files w fname"
proof -
  obtain cp w1 where e: "evaluate_current_model env w = (cp, w1)" by (cases "evaluate_current_model env w")
  have f1: "files w1 fname = files w fname" "files w1 production_path = Some old"
    using touches_onlyD[OF evaluate_touches[of w env], of fname]
          touches_onlyD[OF evaluate_touches[of w env], of production_path]
          e ex retrained_path_distinct[OF d] by simp_all
  have t: "ticks w1 = ticks w" using evaluate_keeps_ticks[of env w] e by simp
  have ne: "fname \<noteq> production_path" "\<And>s. fname \<noteq> backup_name s"
    using retrained_path_distinct[OF d] by auto
  have nb: "\<And>s. production_path \<noteq> backup_name s"
    by (simp add: backup_name_def)
  show ?thesis
    using b e f1 t ne nb bk fail
    by (auto simp: promote_if_better_def os_rename_def andthen_def now_def Let_def path_exists_def
             split: if_splits option.splits)
qed

lemma generate_report_result:
  assumes "generate_retraining_report env ms n r w = (Inr u, w5)"
  shows "\<exists>p rep. is_report_path p \<and> files w5 p = Some (Report rep) \<and> status rep = ''completed_successfully''"
proof -
  let ?p = "report_filename (strftime env (time_at env (Suc (ticks w))))"
  have "is_report_path ?p" by simp
  moreover have "\<exists>rep. files w5 ?p = Some (Report rep) \<and> status rep = ''completed_successfully''"
    using assms
    by (auto simp: generate_retraining_report_def Let_def now_def write_file_def split: if_splits)
  ultimately show ?thesis by blast
qed

lemma clean_up_fst: "fst (clean_up env w) = Inr b \<Longrightarrow> b"
  by (auto simp: clean_up_def andthen_def split: if_splits prod.splits sum.splits)

lemma record_run_fst: "fst (record_run env tr n w) = Inr b \<Longrightarrow> b"
  by (auto simp: record_run_def andthen_def split: prod.splits sum.splits dest: clean_up_fst)

lemmas retrain_defs = retrain_model_def retrain_body_def record_run_def resolve_training_data_def
  ensure_database_has_data_def train_and_save_def fit_and_score_def promote_if_better_def
  better_than_current_def update_training_log_def generate_retraining_report_def clean_up_def
  candidate_stage_def load_training_data_from_csv_def csv_files_def import_csv_data_def read_csv_def
  retrained_filename_def backup_name_def report_filename_def

text \<open>
  Claim C6. In every run that rejects its candidate (the new score is not better than the
  current one), and in every run that ends because no data source yields usable rows (no
  rows, or rows without the target column), the file at the production path is what it was
  before the run, and so is every file with a backup name: no backup is created.
\<close>

theorem rejected_or_no_data_run_keeps_production:
  assumes "candidate_stage env w = NoData \<or> candidate_stage env w = NoTarget
     \<or> (\<exists>tr w2. candidate_stage env w = Candidate tr w2
           \<and> \<not> better_than_current (test_r2 tr) (fst (evaluate_current_model env w2)))"
    and "p = production_path \<or> is_backup_path p"
  shows "files (snd (retrain_model env w)) p = files w p"
proof -
  have "files (snd (retrain_body env w)) p = files w p"
    using assms by (rule retrain_no_promotion_frame)
  then show ?thesis by (simp add: retrain_model_snd)
qed

text \<open>
  Claim C5. For a run that has trained and saved a candidate with held-out score
  \<open>test_r2\<close>, and whose promotion step raises nothing: the candidate is at the production
  path (and no longer under its own name) if and only if the current score is \<open>None\<close> or
  \<open>test_r2\<close> is strictly greater than it; otherwise the production path holds the model it
  held before the run and the candidate stays under its own name.
\<close>

theorem promotion_iff_better:
  assumes st: "candidate_stage env w = Candidate tr w2"
    and ok: "fst (promote_if_better env (test_r2 tr) (saved_as tr) w2) = Inr ()"
  shows "((files (snd (retrain_model env w)) production_path = Some (Pickle (new_system tr))
            \<and> files (snd (retrain_model env w)) (saved_as tr) = None)
          \<longleftrightarrow> (fst (evaluate_current_model env w2) = None
                \<or> (\<exists>c. fst (evaluate_current_model env w2) = Some c \<and> flt c (test_r2 tr))))
       \<and> (\<not> (fst (evaluate_current_model env w2) = None
                \<or> (\<exists>c. fst (evaluate_current_model env w2) = Some c \<and> flt c (test_r2 tr)))
           \<longrightarrow> files (snd (retrain_model env w)) production_path = files w production_path
               \<and> (\<exists>old. files w production_path = Some (Pickle old))
               \<and> files (snd (retrain_model env w)) (saved_as tr) = Some (Pickle (new_system tr)))"
proof -
  let ?cur = "fst (evaluate_current_model env w2)"
  let ?better = "?cur = None \<or> (\<exists>c. ?cur = Some c \<and> flt c (test_r2 tr))"
  have bt: "better_than_current (test_r2 tr) ?cur \<longleftrightarrow> ?better"
    by (cases ?cur) (simp_all add: better_than_current_def)
  obtain n where body: "retrain_body env w =
       andthen (promote_if_better env (test_r2 tr) (saved_as tr) w2) (\<lambda>u w3. record_run env tr n w3)"
    using retrain_body_candidate[OF st] by blast
  let ?w3 = "snd (promote_if_better env (test_r2 tr) (saved_as tr) w2)"
  have pr: "promote_if_better env (test_r2 tr) (saved_as tr) w2 = (Inr (), ?w3)"
    using ok by (cases "promote_if_better env (test_r2 tr) (saved_as tr) w2") simp
  have body2: "retrain_body env w = record_run env tr n ?w3"
    by (subst body, subst pr) simp
  have rp: "is_retrained_path (saved_as tr)" and saved: "files w2 (saved_as tr) = Some (Pickle (new_system tr))"
    using candidate_stage_touches[OF st] by simp_all
  have keep: "files (snd (retrain_model env w)) q = files ?w3 q"
    if "q = production_path \<or> q = saved_as tr" for q
  proof -
    have "q \<noteq> training_log_path \<and> \<not> is_report_path q \<and> q \<noteq> retraining_data_path"
      using that retrained_path_distinct[OF rp] by auto
    then show ?thesis
      using touches_onlyD[OF record_run_touches[of ?w3 env tr n], of q]
      by (simp add: retrain_model_snd body2)
  qed
  have w2prod: "files w2 production_path = files w production_path"
    using touches_onlyD[OF candidate_stage_touches(1)[OF st], of production_path] by simp
  show ?thesis
  proof (cases ?better)
    case True
    then have b: "better_than_current (test_r2 tr) ?cur" using bt by simp
    have "files ?w3 production_path = Some (Pickle (new_system tr)) \<and> files ?w3 (saved_as tr) = None"
      using promote_better_ok[OF b ok saved rp] .
    then show ?thesis using True keep by simp
  next
    case False
    then have nb: "\<not> better_than_current (test_r2 tr) ?cur" using bt by simp
    have w3: "?w3 = snd (evaluate_current_model env w2)"
      by (simp add: promote_not_better[OF nb])
    have e1: "files ?w3 production_path = files w2 production_path"
      using touches_onlyD[OF evaluate_touches[of w2 env], of production_path] by (simp add: w3)
    have e2: "files ?w3 (saved_as tr) = files w2 (saved_as tr)"
      using touches_onlyD[OF evaluate_touches[of w2 env], of "saved_as tr"] retrained_path_distinct[OF rp]
      by (simp add: w3)
    from False obtain c where c: "?cur = Some c" by (cases ?cur) auto
    have old: "\<exists>old. files w production_path = Some (Pickle old)"
      using evaluate_score_model_exists[OF c] w2prod by simp
    show ?thesis using False keep e1 e2 saved w2prod old by simp
  qed
qed

text \<open>
  Claim C1, as the code has it. When the promotion is decided, a production model exists,
  the rename to the backup succeeds and the final rename fails, nothing restores the backup:
  the handler of \<open>retrain_model\<close> returns \<open>False\<close>, the production path is empty, the
  previous model is under the backup name and the candidate under its own name.
\<close>

theorem failed_final_rename_leaves_production_empty:
  assumes st: "candidate_stage env w = Candidate tr w2"
    and better: "better_than_current (test_r2 tr) (fst (evaluate_current_model env w2))"
    and ex: "files w production_path = Some old"
    and bk: "\<not> io_fails env (Rename production_path (backup_name (strftime env (time_at env (ticks w2)))))"
    and fail: "io_fails env (Rename (saved_as tr) production_path)"
  shows "fst (retrain_model env w) = False
       \<and> files (snd (retrain_model env w)) production_path = None
       \<and> files (snd (retrain_model env w)) (backup_name (strftime env (time_at env (ticks w2)))) = Some old
       \<and> files (snd (retrain_model env w)) (saved_as tr) = Some (Pickle (new_system tr))"
proof -
  obtain n where body: "retrain_body env w =
       andthen (promote_if_better env (test_r2 tr) (saved_as tr) w2) (\<lambda>u w3. record_run env tr n w3)"
    using retrain_body_candidate[OF st] by blast
  have rp: "is_retrained_path (saved_as tr)" and saved: "files w2 (saved_as tr) = Some (Pickle (new_system tr))"
    using candidate_stage_touches[OF st] by simp_all
  have ex2: "files w2 production_path = Some old"
    using touches_onlyD[OF candidate_stage_touches(1)[OF st], of production_path] ex by simp
  let ?r = "promote_if_better env (test_r2 tr) (saved_as tr) w2"
  have pf: "fst ?r = Inl OSError
       \<and> files (snd ?r) production_path = None
       \<and> files (snd ?r) (backup_name (strftime env (time_at env (ticks w2)))) = Some old
       \<and> files (snd ?r) (saved_as tr) = files w2 (saved_as tr)"
    using promote_final_rename_fails[OF better ex2 bk fail rp] .
  then have "?r = (Inl OSError, snd ?r)" by (cases ?r) simp
  then have b2: "retrain_body env w = (Inl OSError, snd ?r)"
    by (subst body) (metis andthen_simps(1))
  show ?thesis
    using pf saved by (simp add: retrain_model_fst retrain_model_snd b2)
qed

text \<open>
  Claim C9, as the code has it. A run that returns \<open>True\<close>, whether it promoted or rejected
  its candidate, has written a report whose status is \<open>completed_successfully\<close>. A run that
  ends for lack of data or of the target column returns \<open>False\<close> and writes no report.
\<close>

theorem completed_run_writes_report:
  "(fst (retrain_model env w)
      \<longrightarrow> (\<exists>p rep. is_report_path p \<and> files (snd (retrain_model env w)) p = Some (Report rep)
                   \<and> status rep = ''completed_successfully''))
   \<and> (candidate_stage env w = NoData \<or> candidate_stage env w = NoTarget
      \<longrightarrow> \<not> fst (retrain_model env w)
          \<and> (\<forall>p. is_report_path p \<longrightarrow> files (snd (retrain_model env w)) p = files w p))"
proof -
  have 1: "\<exists>p rep. is_report_path p \<and> files (snd (retrain_model env w)) p = Some (Report rep)
                   \<and> status rep = ''completed_successfully''"
    if t: "fst (retrain_model env w)"
  proof -
    from t have bt: "fst (retrain_body env w) = Inr True"
      by (auto simp: retrain_model_fst split: sum.splits)
    have "\<exists>tr w2. candidate_stage env w = Candidate tr w2"
    proof (cases "candidate_stage env w")
      case (Stopped e) then show ?thesis using bt retrain_body_stopped[of env w e] by simp
    next
      case NoData then show ?thesis using bt retrain_body_no_data[of env w] by simp
    next
      case NoTarget then show ?thesis using bt retrain_body_no_data[of env w] by simp
    next
      case (Candidate tr w2) then show ?thesis by simp
    qed
    then obtain tr w2 where st: "candidate_stage env w = Candidate tr w2" by blast
    obtain n where body: "retrain_body env w =
       andthen (promote_if_better env (test_r2 tr) (saved_as tr) w2) (\<lambda>u w3. record_run env tr n w3)"
      using retrain_body_candidate[OF st] by blast
    obtain x w3 where pr: "promote_if_better env (test_r2 tr) (saved_as tr) w2 = (x, w3)"
      by (cases "promote_if_better env (test_r2 tr) (saved_as tr) w2")
    have rr: "retrain_body env w = record_run env tr n w3"
      using bt body pr by (cases x) simp_all
    obtain y w4 where ul: "update_training_log env (test_r2 tr) n w3 = (y, w4)"
      by (cases "update_training_log env (test_r2 tr) n w3")
    have rr2: "retrain_body env w =
        andthen (generate_retraining_report env (new_system tr) n (test_r2 tr) w4) (\<lambda>u w5. clean_up env w5)"
      using bt rr ul by (cases y) (simp_all add: record_run_def)
    obtain z w5 where gr: "generate_retraining_report env (new_system tr) n (test_r2 tr) w4 = (z, w5)"
      by (cases "generate_retraining_report env (new_system tr) n (test_r2 tr) w4")
    have rr3: "retrain_body env w = clean_up env w5" and z: "z = Inr ()"
      using bt rr2 gr by (cases z; simp)+
    obtain p rep where p: "is_report_path p" "files w5 p = Some (Report rep)"
        "status rep = ''completed_successfully''"
      using generate_report_result[of env "new_system tr" n "test_r2 tr" w4 "()" w5] gr z by auto
    have "files (snd (clean_up env w5)) p = files w5 p"
      using touches_onlyD[OF clean_up_touches[of w5 env], of p] report_path_distinct[OF p(1)] by simp
    then show ?thesis using p by (auto simp: retrain_model_snd rr3)
  qed
  have 2: "\<not> fst (retrain_model env w)
          \<and> (\<forall>p. is_report_path p \<longrightarrow> files (snd (retrain_model env w)) p = files w p)"
    if nd: "candidate_stage env w = NoData \<or> candidate_stage env w = NoTarget"
  proof -
    have b: "retrain_body env w = (Inr False, snd (resolve_training_data env w))"
      using nd by (rule retrain_body_no_data)
    have "files (snd (resolve_training_data env w)) p = files w p" if "is_report_path p" for p
      using touches_onlyD[OF resolve_touches[of w env], of p] report_path_distinct[OF that] by simp
    then show ?thesis by (simp add: retrain_model_fst retrain_model_snd b)
  qed
  show ?thesis using 1 2 by blast
qed

text \<open>
  Claim C10. \<open>retrain_model\<close> returns \<open>False\<close> exactly when no data source yields rows,
  the target column is absent, or an exception is raised in the body; in every other run,
  promoted or rejected, it returns \<open>True\<close>. \<open>run_automated_check\<close> returns that result when
  retraining is needed and \<open>True\<close> otherwise.
\<close>

theorem retrain_model_result:
  "(fst (retrain_model env w) = False
      \<longleftrightarrow> candidate_stage env w = NoData \<or> candidate_stage env w = NoTarget
          \<or> (\<exists>e. fst (retrain_body env w) = Inl e))
   \<and> fst (run_automated_check self env w)
       = (if needs_retraining (fst (check_retraining_criteria self env w))
          then fst (retrain_model env (snd (check_retraining_criteria self env w))) else True)"
proof -
  have a: "fst (retrain_model env w) = False
      \<longleftrightarrow> candidate_stage env w = NoData \<or> candidate_stage env w = NoTarget
          \<or> (\<exists>e. fst (retrain_body env w) = Inl e)"
  proof (cases "candidate_stage env w")
    case (Stopped e) then show ?thesis using retrain_body_stopped[of env w e] by (simp add: retrain_model_fst)
  next
    case NoData then show ?thesis using retrain_body_no_data[of env w] by (simp add: retrain_model_fst)
  next
    case NoTarget then show ?thesis using retrain_body_no_data[of env w] by (simp add: retrain_model_fst)
  next
    case (Candidate tr w2)
    obtain n where body: "retrain_body env w =
       andthen (promote_if_better env (test_r2 tr) (saved_as tr) w2) (\<lambda>u w3. record_run env tr n w3)"
      using retrain_body_candidate[OF Candidate] by blast
    have "b" if "fst (retrain_body env w) = Inr b" for b
    proof -
      obtain x w3 where pr: "promote_if_better env (test_r2 tr) (saved_as tr) w2 = (x, w3)"
        by (cases "promote_if_better env (test_r2 tr) (saved_as tr) w2")
      have "retrain_body env w = record_run env tr n w3"
        using that body pr by (cases x) simp_all
      then show ?thesis using that record_run_fst[of env tr n w3 b] by simp
    qed
    then have tb: "\<And>b. fst (retrain_body env w) = Inr b \<Longrightarrow> b" .
    show ?thesis
    proof (cases "fst (retrain_body env w)")
      case (Inl e)
      then show ?thesis using Candidate by (simp add: retrain_model_fst)
    next
      case (Inr b)
      with tb have "b" by simp
      then show ?thesis using Candidate Inr by (simp add: retrain_model_fst)
    qed
  qed
  have b: "fst (run_automated_check self env w)
       = (if needs_retraining (fst (check_retraining_criteria self env w))
          then fst (retrain_model env (snd (check_retraining_criteria self env w))) else True)"
    by (simp add: run_automated_check_def Let_def split: prod.splits)
  show ?thesis using a b by blast
qed

lemmas demo_defs3 = demo_defs2 failing_rename_env_def demo_trained_def demo_trained_world_def

lemmas all_defs = retrain_defs check_defs io_defs df_defs demo_defs3 Let_def numeral_2_eq_2

lemma demo_stage:
  "candidate_stage (demo_env s) (demo_world (Some (Pickle (demo_system old))) None)
     = Candidate (demo_trained s) (demo_trained_world old s)"
  by (simp add: all_defs)

lemma demo_stage_failing:
  "candidate_stage failing_rename_env (demo_world (Some (Pickle (demo_system old))) None)
     = Candidate (demo_trained (82/100)) (demo_trained_world old (82/100))"
  by (simp add: all_defs)

lemma demo_stage_no_data:
  "candidate_stage empty_export_env (demo_world (Some (Pickle (demo_system old))) None) = NoData"
  by (simp add: all_defs)

lemma demo_eval:
  "fst (evaluate_current_model (demo_env s) (demo_trained_world old s)) = Some (Fin old)"
  by (simp add: all_defs)

lemma demo_promote_ok:
  "fst (promote_if_better (demo_env s) (Fin s) (retrained_filename ''20250101_000000'') (demo_trained_world old s)) = Inr ()"
  by (simp add: all_defs)

lemma demo_better: "better_than_current (Fin s) (Some (Fin old)) = (old < s)"
  by (simp add: better_than_current_def)

theorem promotion_iff_better_witness:
  "candidate_stage (demo_env (82/100)) (demo_world (Some (Pickle (demo_system (78/100)))) None)
     = Candidate (demo_trained (82/100)) (demo_trained_world (78/100) (82/100))
   \<and> fst (promote_if_better (demo_env (82/100)) (test_r2 (demo_trained (82/100)))
           (saved_as (demo_trained (82/100))) (demo_trained_world (78/100) (82/100))) = Inr ()
   \<and> fst (evaluate_current_model (demo_env (82/100)) (demo_trained_world (78/100) (82/100)))
       = Some (Fin (78/100))
   \<and> flt (Fin (78/100)) (test_r2 (demo_trained (82/100)))
   \<and> files (snd (retrain_model (demo_env (82/100))
         (demo_world (Some (Pickle (demo_system (78/100)))) None))) production_path
       = Some (Pickle (new_system (demo_trained (82/100))))
   \<and> files (snd (retrain_model (demo_env (82/100))
         (demo_world (Some (Pickle (demo_system (78/100)))) None))) (saved_as (demo_trained (82/100)))
       = None
   \<and> candidate_stage (demo_env (70/100)) (demo_world (Some (Pickle (demo_system (78/100)))) None)
     = Candidate (demo_trained (70/100)) (demo_trained_world (78/100) (70/100))
   \<and> fst (promote_if_better (demo_env (70/100)) (test_r2 (demo_trained (70/100)))
           (saved_as (demo_trained (70/100))) (demo_trained_world (78/100) (70/100))) = Inr ()
   \<and> fst (evaluate_current_model (demo_env (70/100)) (demo_trained_world (78/100) (70/100)))
       = Some (Fin (78/100))
   \<and> \<not> flt (Fin (78/100)) (test_r2 (demo_trained (70/100)))
   \<and> files (snd (retrain_model (demo_env (70/100))
         (demo_world (Some (Pickle (demo_system (78/100)))) None))) production_path
       = Some (Pickle (demo_system (78/100)))
   \<and> files (snd (retrain_model (demo_env (70/100))
         (demo_world (Some (Pickle (demo_system (78/100)))) None))) (saved_as (demo_trained (70/100)))
       = Some (Pickle (new_system (demo_trained (70/100))))"
proof -
  let ?W = "demo_world (Some (Pickle (demo_system (78/100)))) None"
  have t: "test_r2 (demo_trained s) = Fin s" "saved_as (demo_trained s) = retrained_filename ''20250101_000000''" for s
    by (simp_all add: demo_trained_def)
  have st1: "candidate_stage (demo_env (82/100)) ?W
     = Candidate (demo_trained (82/100)) (demo_trained_world (78/100) (82/100))"
    by (rule demo_stage)
  have ok1: "fst (promote_if_better (demo_env (82/100)) (test_r2 (demo_trained (82/100)))
           (saved_as (demo_trained (82/100))) (demo_trained_world (78/100) (82/100))) = Inr ()"
    by (simp only: t demo_promote_ok)
  have st2: "candidate_stage (demo_env (70/100)) ?W
     = Candidate (demo_trained (70/100)) (demo_trained_world (78/100) (70/100))"
    by (rule demo_stage)
  have ok2: "fst (promote_if_better (demo_env (70/100)) (test_r2 (demo_trained (70/100)))
           (saved_as (demo_trained (70/100))) (demo_trained_world (78/100) (70/100))) = Inr ()"
    by (simp only: t demo_promote_ok)
  have w: "files ?W production_path = Some (Pickle (demo_system (78/100)))"
    by (simp add: demo_world_def)
  show ?thesis
    using promotion_iff_better[OF st1 ok1] promotion_iff_better[OF st2 ok2] st1 ok1 st2 ok2 w
    by (simp add: demo_eval t)
qed

theorem rejected_or_no_data_run_keeps_production_witness:
  "candidate_stage empty_export_env (demo_world (Some (Pickle (demo_system (78/100)))) None) = NoData
   \<and> files (snd (retrain_model empty_export_env
         (demo_world (Some (Pickle (demo_system (78/100)))) None))) production_path
       = Some (Pickle (demo_system (78/100)))
   \<and> candidate_stage (demo_env (70/100)) (demo_world (Some (Pickle (demo_system (78/100)))) None)
       = Candidate (demo_trained (70/100)) (demo_trained_world (78/100) (70/100))
   \<and> \<not> better_than_current (test_r2 (demo_trained (70/100)))
         (fst (evaluate_current_model (demo_env (70/100)) (demo_trained_world (78/100) (70/100))))
   \<and> is_backup_path (backup_name ''20250101_000000'')
   \<and> files (snd (retrain_model (demo_env (70/100))
         (demo_world (Some (Pickle (demo_system (78/100)))) None))) (backup_name ''20250101_000000'')
       = None
   \<and> files (snd (retrain_model (demo_env (70/100))
         (demo_world (Some (Pickle (demo_system (78/100)))) None))) production_path
       = Some (Pickle (demo_system (78/100)))"
proof -
  let ?W = "demo_world (Some (Pickle (demo_system (78/100)))) None"
  have nd: "candidate_stage empty_export_env ?W = NoData" by (rule demo_stage_no_data)
  have st: "candidate_stage (demo_env (70/100)) ?W
       = Candidate (demo_trained (70/100)) (demo_trained_world (78/100) (70/100))"
    by (rule demo_stage)
  have nb: "\<not> better_than_current (test_r2 (demo_trained (70/100)))
         (fst (evaluate_current_model (demo_env (70/100)) (demo_trained_world (78/100) (70/100))))"
    by (simp add: demo_eval demo_better demo_trained_def)
  have h1: "candidate_stage empty_export_env ?W = NoData
     \<or> candidate_stage empty_export_env ?W = NoTarget
     \<or> (\<exists>tr w2. candidate_stage empty_export_env ?W = Candidate tr w2
           \<and> \<not> better_than_current (test_r2 tr) (fst (evaluate_current_model empty_export_env w2)))"
    using nd by simp
  have h2: "candidate_stage (demo_env (70/100)) ?W = NoData
     \<or> candidate_stage (demo_env (70/100)) ?W = NoTarget
     \<or> (\<exists>tr w2. candidate_stage (demo_env (70/100)) ?W = Candidate tr w2
           \<and> \<not> better_than_current (test_r2 tr) (fst (evaluate_current_model (demo_env (70/100)) w2)))"
    using st nb by simp
  have w: "files ?W production_path = Some (Pickle (demo_system (78/100)))"
    "files ?W (backup_name ''20250101_000000'') = None"
    by (simp_all add: demo_world_def backup_name_def)
  show ?thesis
    using rejected_or_no_data_run_keeps_production[OF h1, of production_path]
          rejected_or_no_data_run_keeps_production[OF h2, of production_path]
          rejected_or_no_data_run_keeps_production[OF h2, of "backup_name ''20250101_000000''"]
          nd st nb w
    by simp
qed

theorem failed_final_rename_leaves_production_empty_witness:
  "candidate_stage failing_rename_env (demo_world (Some (Pickle (demo_system (78/100)))) None)
     = Candidate (demo_trained (82/100)) (demo_trained_world (78/100) (82/100))
   \<and> better_than_current (test_r2 (demo_trained (82/100)))
        (fst (evaluate_current_model failing_rename_env (demo_trained_world (78/100) (82/100))))
   \<and> files (demo_world (Some (Pickle (demo_system (78/100)))) None) production_path
       = Some (Pickle (demo_system (78/100)))
   \<and> \<not> io_fails failing_rename_env (Rename production_path (backup_name ''20250101_000000''))
   \<and> io_fails failing_rename_env (Rename (saved_as (demo_trained (82/100))) production_path)
   \<and> fst (retrain_model failing_rename_env (demo_world (Some (Pickle (demo_system (78/100)))) None))
       = False
   \<and> files (snd (retrain_model failing_rename_env
         (demo_world (Some (Pickle (demo_system (78/100)))) None))) production_path = None
   \<and> files (snd (retrain_model failing_rename_env
         (demo_world (Some (Pickle (demo_system (78/100)))) None))) (backup_name ''20250101_000000'')
       = Some (Pickle (demo_system (78/100)))
   \<and> files (snd (retrain_model failing_rename_env
         (demo_world (Some (Pickle (demo_system (78/100)))) None))) (saved_as (demo_trained (82/100)))
       = Some (Pickle (new_system (demo_trained (82/100))))"
proof -
  let ?W = "demo_world (Some (Pickle (demo_system (78/100)))) None"
  let ?W2 = "demo_trained_world (78/100) (82/100)"
  have st: "candidate_stage failing_rename_env ?W = Candidate (demo_trained (82/100)) ?W2"
    by (rule demo_stage_failing)
  have ev: "fst (evaluate_current_model failing_rename_env ?W2) = Some (Fin (78/100))"
    by (simp add: all_defs)
  have b: "better_than_current (test_r2 (demo_trained (82/100)))
        (fst (evaluate_current_model failing_rename_env ?W2))"
    using ev by (simp add: better_than_current_def demo_trained_def)
  have ex: "files ?W production_path = Some (Pickle (demo_system (78/100)))"
    by (simp add: demo_world_def)
  have s: "strftime failing_rename_env t = ''20250101_000000''" for t
    by (simp add: failing_rename_env_def demo_env_def)
  have bk: "\<not> io_fails failing_rename_env (Rename production_path
               (backup_name (strftime failing_rename_env (time_at failing_rename_env (ticks ?W2)))))"
    by (simp add: failing_rename_env_def demo_env_def retrained_filename_def backup_name_def)
  have fl: "io_fails failing_rename_env (Rename (saved_as (demo_trained (82/100))) production_path)"
    by (simp add: failing_rename_env_def demo_env_def demo_trained_def)
  show ?thesis
    using failed_final_rename_leaves_production_empty[OF st b ex bk fl] st b ex bk fl
    by (simp add: s)
qed

text \<open>
  Claim C1 as the specification states it fails: in the run below a loadable model is at the
  production path before the run, the final rename fails, and afterwards the production
  path holds nothing.
\<close>

theorem failed_final_rename_counterexample:
  "files (demo_world (Some (Pickle (demo_system (78/100)))) None) production_path
     = Some (Pickle (demo_system (78/100)))
   \<and> fst (retrain_model failing_rename_env (demo_world (Some (Pickle (demo_system (78/100)))) None))
       = False
   \<and> files (snd (retrain_model failing_rename_env
         (demo_world (Some (Pickle (demo_system (78/100)))) None))) production_path = None"
  by (simp add: all_defs)

theorem completed_run_writes_report_witness:
  "fst (retrain_model (demo_env (70/100)) (demo_world (Some (Pickle (demo_system (78/100)))) None))
   \<and> (\<exists>p rep. is_report_path p
        \<and> files (snd (retrain_model (demo_env (70/100))
              (demo_world (Some (Pickle (demo_system (78/100)))) None))) p = Some (Report rep)
        \<and> status rep = ''completed_successfully'')
   \<and> candidate_stage empty_export_env (demo_world (Some (Pickle (demo_system (78/100)))) None) = NoData
   \<and> \<not> fst (retrain_model empty_export_env (demo_world (Some (Pickle (demo_system (78/100)))) None))
   \<and> is_report_path (report_filename ''20250101_000000'')
   \<and> files (snd (retrain_model empty_export_env
         (demo_world (Some (Pickle (demo_system (78/100)))) None))) (report_filename ''20250101_000000'')
       = None"
proof -
  let ?W = "demo_world (Some (Pickle (demo_system (78/100)))) None"
  have t: "fst (retrain_model (demo_env (70/100)) ?W)"
    by (simp add: all_defs)
  have nd: "candidate_stage empty_export_env ?W = NoData" by (rule demo_stage_no_data)
  have w: "files ?W (report_filename ''20250101_000000'') = None"
    by (simp add: demo_world_def report_filename_def)
  show ?thesis
    using completed_run_writes_report[of "demo_env (70/100)" ?W]
          completed_run_writes_report[of empty_export_env ?W] t nd w
    by simp
qed

text \<open>
  Claim C9 as the specification states it fails: a run that rejects its candidate (the
  production file is unchanged) writes a report with status \<open>completed_successfully\<close>, and
  a run without data changes nothing but the exported CSV: it writes no report.
\<close>

theorem report_status_counterexample:
  "\<not> better_than_current (Fin (70/100)) (Some (Fin (78/100)))
   \<and> files (snd (retrain_model (demo_env (70/100))
         (demo_world (Some (Pickle (demo_system (78/100)))) None))) production_path
       = Some (Pickle (demo_system (78/100)))
   \<and> report_status (files (snd (retrain_model (demo_env (70/100))
         (demo_world (Some (Pickle (demo_system (78/100)))) None))) (report_filename ''20250101_000000''))
       = Some ''completed_successfully''
   \<and> fst (retrain_model empty_export_env (demo_world (Some (Pickle (demo_system (78/100)))) None))
       = False
   \<and> files (snd (retrain_model empty_export_env (demo_world (Some (Pickle (demo_system (78/100)))) None)))
       = (files (demo_world (Some (Pickle (demo_system (78/100)))) None))(retraining_data_path \<mapsto> Csv [])"
  by (simp add: all_defs)

theorem retrain_model_result_witness:
  "candidate_stage empty_export_env (demo_world (Some (Pickle (demo_system (78/100)))) None) = NoData
   \<and> fst (retrain_model empty_export_env (demo_world (Some (Pickle (demo_system (78/100)))) None)) = False
   \<and> fst (retrain_model (demo_env (82/100)) (demo_world (Some (Pickle (demo_system (78/100)))) None)) = True
   \<and> files (snd (retrain_model (demo_env (82/100))
         (demo_world (Some (Pickle (demo_system (78/100)))) None))) production_path
       = Some (Pickle (new_system (demo_trained (82/100))))
   \<and> fst (retrain_model (demo_env (70/100)) (demo_world (Some (Pickle (demo_system (78/100)))) None)) = True
   \<and> files (snd (retrain_model (demo_env (70/100))
         (demo_world (Some (Pickle (demo_system (78/100)))) None))) production_path
       = Some (Pickle (demo_system (78/100)))
   \<and> needs_retraining (fst (check_retraining_criteria init_retrainer (demo_env (82/100))
         (demo_world (Some (Pickle (demo_system (78/100)))) None)))
   \<and> fst (run_automated_check init_retrainer (demo_env (82/100))
         (demo_world (Some (Pickle (demo_system (78/100)))) None)) = True"
proof -
  let ?W = "demo_world (Some (Pickle (demo_system (78/100)))) None"
  have nd: "candidate_stage empty_export_env ?W = NoData" by (rule demo_stage_no_data)
  have a: "fst (retrain_model (demo_env (82/100)) ?W) = True
     \<and> files (snd (retrain_model (demo_env (82/100)) ?W)) production_path
         = Some (Pickle (new_system (demo_trained (82/100))))"
    by (simp add: all_defs)
  have b: "fst (retrain_model (demo_env (70/100)) ?W) = True
     \<and> files (snd (retrain_model (demo_env (70/100)) ?W)) production_path
         = Some (Pickle (demo_system (78/100)))"
    by (simp add: all_defs)
  have c: "needs_retraining (fst (check_retraining_criteria init_retrainer (demo_env (82/100)) ?W))
     \<and> fst (retrain_model (demo_env (82/100)) (snd (check_retraining_criteria init_retrainer (demo_env (82/100)) ?W)))"
    by (simp add: all_defs)
  show ?thesis
    using retrain_model_result[of empty_export_env ?W init_retrainer]
          retrain_model_result[of "demo_env (82/100)" ?W init_retrainer] nd a b c
    by simp
qed

end
